theory Spec2Isabelle
  imports Main
begin

chapter \<open>The model\<close>

section \<open>Python values\<close>

text \<open>
  A Python \<open>str\<close> is a sequence of Unicode code points; it is modelled as the list of
  those code points, so that \<open>len\<close> is \<open>length\<close> and concatenation is \<open>@\<close>.
  A \<open>bytes\<close> value is the list of its byte values. String literals of the source are
  written \<open>lit ''...''\<close>.
\<close>

type_synonym pystr = "nat list"
type_synonym pybytes = "nat list"

definition lit :: "string \<Rightarrow> pystr" where
  "lit = map of_char"

text \<open>The exceptions that the modelled code can raise.\<close>

datatype error =
    KeyError pystr
  | AttributeError
  | UnicodeEncodeError
  | UnicodeDecodeError
  | ZeroDivisionError

text \<open>
  The values that arrive as tool arguments and that make up the result dictionaries.
  A \<open>dict\<close> keeps its insertion order, which \<open>json.dumps\<close> follows, so it is an
  association list. A \<open>float\<close> is represented by the ASCII text that
  \<open>float.__repr__\<close> gives for it.
\<close>

datatype json =
    JNull
  | JBool bool
  | JInt int
  | JFloat string
  | JStr pystr
  | JList "json list"
  | JObj "(pystr \<times> json) list"

type_synonym pydict = "(pystr \<times> json) list"

text \<open>\<open>k in d\<close>, \<open>d.get(k, default)\<close>, \<open>d[k]\<close> and the store \<open>d[k] = v\<close>.\<close>

definition dict_contains :: "('k \<times> 'v) list \<Rightarrow> 'k \<Rightarrow> bool" where
  "dict_contains d k = (map_of d k \<noteq> None)"

definition dict_get :: "('k \<times> 'v) list \<Rightarrow> 'k \<Rightarrow> 'v \<Rightarrow> 'v" where
  "dict_get d k dflt = (case map_of d k of Some v \<Rightarrow> v | None \<Rightarrow> dflt)"

definition dict_index :: "(pystr \<times> 'v) list \<Rightarrow> pystr \<Rightarrow> error + 'v" where
  "dict_index d k = (case map_of d k of Some v \<Rightarrow> Inr v | None \<Rightarrow> Inl (KeyError k))"

definition dict_set :: "('k \<times> 'v) list \<Rightarrow> 'k \<Rightarrow> 'v \<Rightarrow> ('k \<times> 'v) list" where
  "dict_set d k v =
     (if dict_contains d k then map (\<lambda>(k', v'). if k' = k then (k', v) else (k', v')) d
      else d @ [(k, v)])"

text \<open>\<open>sep.join(xs)\<close>.\<close>

fun str_join :: "pystr \<Rightarrow> pystr list \<Rightarrow> pystr" where
  "str_join sep [] = []"
| "str_join sep [x] = x"
| "str_join sep (x # y # ys) = x @ sep @ str_join sep (y # ys)"

section \<open>Configuration and lookup tables\<close>

text \<open>
  The class \<open>Config\<close> reads each attribute from the environment once, at import; a
  deployment is therefore one value of this record, and \<open>default_Config\<close> is the one
  of an empty environment.
\<close>

record Config =
  MERMAID_BASE_URL :: pystr
  MERMAID_LIVE_URL :: pystr
  QUICKCHART_URL :: pystr
  QUICKCHART_MAX_URL_LENGTH :: int
  HTTP_TIMEOUT :: int
  DEFAULT_CHART_WIDTH :: int
  DEFAULT_CHART_HEIGHT :: int

definition default_Config :: Config where
  "default_Config = \<lparr>
     MERMAID_BASE_URL = lit ''https://mermaid.ink'',
     MERMAID_LIVE_URL = lit ''https://mermaid.live'',
     QUICKCHART_URL = lit ''https://quickchart.io/chart'',
     QUICKCHART_MAX_URL_LENGTH = 8000,
     HTTP_TIMEOUT = 10,
     DEFAULT_CHART_WIDTH = 500,
     DEFAULT_CHART_HEIGHT = 300 \<rparr>"

text \<open>
  Every entry of \<open>CHART_THEMES\<close> is a dict literal with the keys \<open>background\<close>,
  \<open>font\<close> and \<open>grid\<close>, and every entry of \<open>TABLE_STYLES\<close> one with the keys
  \<open>header_bg\<close>, \<open>header_color\<close>, \<open>highlight_bg\<close> and \<open>border\<close>; the entries are
  records with these fields. The tables themselves are dicts keyed by name.
\<close>

record chart_theme =
  background :: pystr
  font :: pystr
  grid :: pystr

record table_style =
  header_bg :: pystr
  header_color :: pystr
  highlight_bg :: pystr
  border :: pystr

definition CHART_THEMES :: "(pystr \<times> chart_theme) list" where
  "CHART_THEMES = [
     (lit ''light'', \<lparr>background = lit ''#ffffff'', font = lit ''#333333'',
        grid = lit ''rgba(0, 0, 0, 0.1)''\<rparr>),
     (lit ''dark'', \<lparr>background = lit ''#1e1e1e'', font = lit ''#ffffff'',
        grid = lit ''rgba(255, 255, 255, 0.1)''\<rparr>),
     (lit ''kakao'', \<lparr>background = lit ''#fee500'', font = lit ''#191919'',
        grid = lit ''rgba(0, 0, 0, 0.1)''\<rparr>)]"

definition COLOR_PALETTES :: "(pystr \<times> pystr list) list" where
  "COLOR_PALETTES = [
     (lit ''default'', [
        lit ''rgba(54, 162, 235, 0.7)'', lit ''rgba(255, 99, 132, 0.7)'',
        lit ''rgba(75, 192, 192, 0.7)'', lit ''rgba(255, 206, 86, 0.7)'',
        lit ''rgba(153, 102, 255, 0.7)'', lit ''rgba(255, 159, 64, 0.7)'']),
     (lit ''pastel'', [
        lit ''rgba(174, 198, 207, 0.7)'', lit ''rgba(255, 179, 186, 0.7)'',
        lit ''rgba(186, 255, 201, 0.7)'', lit ''rgba(255, 255, 186, 0.7)'',
        lit ''rgba(186, 225, 255, 0.7)'', lit ''rgba(255, 198, 255, 0.7)'']),
     (lit ''vibrant'', [
        lit ''rgba(0, 123, 255, 0.8)'', lit ''rgba(220, 53, 69, 0.8)'',
        lit ''rgba(40, 167, 69, 0.8)'', lit ''rgba(255, 193, 7, 0.8)'',
        lit ''rgba(111, 66, 193, 0.8)'', lit ''rgba(253, 126, 20, 0.8)''])]"

definition TABLE_STYLES :: "(pystr \<times> table_style) list" where
  "TABLE_STYLES = [
     (lit ''default'', \<lparr>header_bg = lit ''#4CAF50'', header_color = lit ''white'',
        highlight_bg = lit ''#E3F2FD'', border = lit ''#ddd''\<rparr>),
     (lit ''dark'', \<lparr>header_bg = lit ''#333333'', header_color = lit ''white'',
        highlight_bg = lit ''#444444'', border = lit ''#555555''\<rparr>),
     (lit ''kakao'', \<lparr>header_bg = lit ''#fee500'', header_color = lit ''#191919'',
        highlight_bg = lit ''#fff9c4'', border = lit ''#e0e0e0''\<rparr>)]"

text \<open>
  The three lookups. The default passed to \<open>.get\<close> is itself a subscript of the table,
  evaluated before the call, so it is the one place where a lookup could raise.
\<close>

definition get_color_palette :: "pystr \<Rightarrow> error + pystr list" where
  "get_color_palette name =
     (case dict_index COLOR_PALETTES (lit ''default'') of
        Inl e \<Rightarrow> Inl e
      | Inr dflt \<Rightarrow> Inr (dict_get COLOR_PALETTES name dflt))"

definition get_chart_theme :: "pystr \<Rightarrow> error + chart_theme" where
  "get_chart_theme name =
     (case dict_index CHART_THEMES (lit ''light'') of
        Inl e \<Rightarrow> Inl e
      | Inr dflt \<Rightarrow> Inr (dict_get CHART_THEMES name dflt))"

definition get_table_style :: "pystr \<Rightarrow> error + table_style" where
  "get_table_style name =
     (case dict_index TABLE_STYLES (lit ''default'') of
        Inl e \<Rightarrow> Inl e
      | Inr dflt \<Rightarrow> Inr (dict_get TABLE_STYLES name dflt))"

section \<open>Formatting helpers\<close>

text \<open>\<open>str(n)\<close> for an \<open>int\<close>: the decimal digits, with a minus sign when negative.\<close>

fun str_of_nat :: "nat \<Rightarrow> pystr" where
  "str_of_nat n = (if n < 10 then [48 + n] else str_of_nat (n div 10) @ [48 + n mod 10])"

declare str_of_nat.simps [simp del]

definition str_of_int :: "int \<Rightarrow> pystr" where
  "str_of_int i = (if i < 0 then 45 # str_of_nat (nat (- i)) else str_of_nat (nat i))"

text \<open>The number that a text of decimal digits denotes, to read a printed number back.\<close>

definition digits_value :: "pystr \<Rightarrow> nat" where
  "digits_value s = foldl (\<lambda>a d. 10 * a + (d - 48)) 0 s"

text \<open>The truth value of an \<open>Optional[str]\<close>: \<open>None\<close> and the empty string are false.\<close>

definition truthy :: "pystr option \<Rightarrow> bool" where
  "truthy t = (case t of None \<Rightarrow> False | Some s \<Rightarrow> s \<noteq> [])"

definition json_of_opt :: "pystr option \<Rightarrow> json" where
  "json_of_opt t = (case t of None \<Rightarrow> JNull | Some s \<Rightarrow> JStr s)"

section \<open>The table generator\<close>

text \<open>
  The validation loop \<open>for i, row in enumerate(rows)\<close>: it returns at the first row
  whose length is not \<open>col_count\<close>, with that row's index.
\<close>

fun first_mismatch :: "nat \<Rightarrow> nat \<Rightarrow> pystr list list \<Rightarrow> nat option" where
  "first_mismatch col_count i [] = None"
| "first_mismatch col_count i (row # rows) =
     (if length row \<noteq> col_count then Some i else first_mismatch col_count (Suc i) rows)"

text \<open>The two f-strings of the HTML path.\<close>

definition html_th :: "table_style \<Rightarrow> pystr \<Rightarrow> pystr \<Rightarrow> pystr" where
  "html_th s bg h =
     lit ''    <th style=\"border: 1px solid '' @ border s @ lit ''; padding: 8px; background-color: ''
       @ bg @ lit ''; color: '' @ header_color s @ lit '';\">'' @ h @ lit ''</th>''"

definition html_td :: "table_style \<Rightarrow> pystr \<Rightarrow> pystr \<Rightarrow> pystr \<Rightarrow> pystr" where
  "html_td s bg weight cell =
     lit ''      <td style=\"border: 1px solid '' @ border s @ lit ''; padding: 8px; background-color: ''
       @ bg @ lit ''; font-weight: '' @ weight @ lit '';\">'' @ cell @ lit ''</td>''"

text \<open>
  The markdown branch. \<open>highlight_column == i\<close> compares an \<open>Optional[int]\<close> with a
  loop index; each \<open>lines.append\<close> of a loop is one step of a \<open>foldl\<close>.
\<close>

definition markdown_table ::
  "pystr list \<Rightarrow> pystr list list \<Rightarrow> pystr option \<Rightarrow> int option \<Rightarrow> pystr" where
  "markdown_table headers rows title highlight_column =
     (let col_count = length headers;
          lines0 = (if truthy title then [lit ''### '' @ the title @ lit ''\<newline>''] else []);
          lines1 = lines0 @ [lit ''| '' @ str_join (lit '' | '') headers @ lit '' |''];
          separators = map (\<lambda>i. if highlight_column = Some (int i) then lit '':---:'' else lit ''---'')
                         [0..<col_count];
          lines2 = lines1 @ [lit ''| '' @ str_join (lit '' | '') separators @ lit '' |''];
          lines3 = foldl (\<lambda>lines row.
                      let row' = (if highlight_column \<noteq> None
                                  then map (\<lambda>(i, cell). if Some (int i) = highlight_column
                                                         then lit ''**'' @ cell @ lit ''**'' else cell)
                                         (enumerate 0 row)
                                  else row)
                      in lines @ [lit ''| '' @ str_join (lit '' | '') row' @ lit '' |''])
                    lines2 rows
      in str_join (lit ''\<newline>'') lines3)"

definition html_table ::
  "table_style \<Rightarrow> pystr list \<Rightarrow> pystr list list \<Rightarrow> pystr option \<Rightarrow> int option \<Rightarrow> pystr" where
  "html_table s headers rows title highlight_column =
     (let lines0 = (if truthy title then [lit ''<h3>'' @ the title @ lit ''</h3>''] else []);
          lines1 = lines0 @ [lit ''<table style=\"border-collapse: collapse; width: 100%;\">''];
          lines2 = lines1 @ [lit ''  <thead><tr>''];
          lines3 = foldl (\<lambda>lines (i, h).
                      let bg = (if highlight_column = Some (int i) then highlight_bg s else header_bg s)
                      in lines @ [html_th s bg h])
                    lines2 (enumerate 0 headers);
          lines4 = lines3 @ [lit ''  </tr></thead><tbody>''];
          lines5 = foldl (\<lambda>lines row.
                      let linesa = lines @ [lit ''    <tr>''];
                          linesb = foldl (\<lambda>lines (i, cell).
                                     let bg = (if highlight_column = Some (int i)
                                               then highlight_bg s else lit ''transparent'');
                                         weight = (if highlight_column = Some (int i)
                                                   then lit ''bold'' else lit ''normal'')
                                     in lines @ [html_td s bg weight cell])
                                   linesa (enumerate 0 row)
                      in linesb @ [lit ''    </tr>''])
                    lines4 rows;
          lines6 = lines5 @ [lit ''  </tbody></table>'']
      in str_join (lit ''\<newline>'') lines6)"

definition generate_table ::
  "pystr list \<Rightarrow> pystr list list \<Rightarrow> pystr option \<Rightarrow> pystr \<Rightarrow> pystr \<Rightarrow> int option
     \<Rightarrow> error + pydict" where
  "generate_table headers rows title format style highlight_column =
     (if headers = [] \<or> rows = [] then
        Inr [(lit ''success'', JBool False),
             (lit ''error'', JStr (lit ''Headers and rows cannot be empty.''))]
      else
        let col_count = length headers in
        case first_mismatch col_count 0 rows of
          Some i \<Rightarrow>
            Inr [(lit ''success'', JBool False),
                 (lit ''error'', JStr (lit ''Row '' @ str_of_int (int i + 1)
                                        @ lit '' column count mismatch.''))]
        | None \<Rightarrow>
            (case get_table_style style of
               Inl e \<Rightarrow> Inl e
             | Inr table_style \<Rightarrow>
                 let table_string =
                       (if format = lit ''markdown''
                        then markdown_table headers rows title highlight_column
                        else html_table table_style headers rows title highlight_column)
                 in Inr [(lit ''success'', JBool True),
                         (lit ''type'', JStr (lit ''table'')),
                         (lit ''format'', JStr format),
                         (lit ''title'', json_of_opt title),
                         (lit ''table'', JStr table_string),
                         (lit ''dimensions'',
                            JObj [(lit ''columns'', JInt (int col_count)),
                                  (lit ''rows'', JInt (int (length rows)))])]))"

section \<open>Text encodings\<close>

text \<open>
  \<open>str.encode()\<close>: UTF-8, strict. A surrogate code point cannot be encoded and raises
  \<open>UnicodeEncodeError\<close>; a value from \<open>0x110000\<close> on is not a code point at all.
\<close>

definition utf8_encode_cp :: "nat \<Rightarrow> error + pybytes" where
  "utf8_encode_cp c =
     (if c < 0x80 then Inr [c]
      else if c < 0x800 then Inr [0xC0 + c div 64, 0x80 + c mod 64]
      else if 0xD800 \<le> c \<and> c \<le> 0xDFFF then Inl UnicodeEncodeError
      else if c < 0x10000 then
        Inr [0xE0 + c div 4096, 0x80 + (c div 64) mod 64, 0x80 + c mod 64]
      else if c < 0x110000 then
        Inr [0xF0 + c div 262144, 0x80 + (c div 4096) mod 64, 0x80 + (c div 64) mod 64,
             0x80 + c mod 64]
      else Inl UnicodeEncodeError)"

fun utf8_encode :: "pystr \<Rightarrow> error + pybytes" where
  "utf8_encode [] = Inr []"
| "utf8_encode (c # cs) =
     (case utf8_encode_cp c of
        Inl e \<Rightarrow> Inl e
      | Inr b \<Rightarrow> (case utf8_encode cs of Inl e \<Rightarrow> Inl e | Inr bs \<Rightarrow> Inr (b @ bs)))"

text \<open>
  \<open>bytes.decode()\<close>: UTF-8, strict. It rejects a stray continuation byte, a truncated
  sequence, an overlong form, a surrogate and a value beyond \<open>0x10FFFF\<close>.
\<close>

definition is_cont :: "nat \<Rightarrow> bool" where
  "is_cont b = (0x80 \<le> b \<and> b < 0xC0)"

fun utf8_decode :: "pybytes \<Rightarrow> error + pystr" where
  "utf8_decode [] = Inr []"
| "utf8_decode (b0 # bs) =
     (if b0 < 0x80 then
        (case utf8_decode bs of Inl e \<Rightarrow> Inl e | Inr s \<Rightarrow> Inr (b0 # s))
      else if 0xC2 \<le> b0 \<and> b0 < 0xE0 then
        (case bs of
           b1 # r \<Rightarrow>
             if is_cont b1 then
               (case utf8_decode r of
                  Inl e \<Rightarrow> Inl e
                | Inr s \<Rightarrow> Inr (((b0 - 0xC0) * 64 + (b1 - 0x80)) # s))
             else Inl UnicodeDecodeError
         | _ \<Rightarrow> Inl UnicodeDecodeError)
      else if 0xE0 \<le> b0 \<and> b0 < 0xF0 then
        (case bs of
           b1 # b2 # r \<Rightarrow>
             let c = (b0 - 0xE0) * 4096 + (b1 - 0x80) * 64 + (b2 - 0x80) in
             if is_cont b1 \<and> is_cont b2 \<and> 0x800 \<le> c \<and> \<not> (0xD800 \<le> c \<and> c \<le> 0xDFFF) then
               (case utf8_decode r of Inl e \<Rightarrow> Inl e | Inr s \<Rightarrow> Inr (c # s))
             else Inl UnicodeDecodeError
         | _ \<Rightarrow> Inl UnicodeDecodeError)
      else if 0xF0 \<le> b0 \<and> b0 < 0xF5 then
        (case bs of
           b1 # b2 # b3 # r \<Rightarrow>
             let c = (b0 - 0xF0) * 262144 + (b1 - 0x80) * 4096 + (b2 - 0x80) * 64 + (b3 - 0x80) in
             if is_cont b1 \<and> is_cont b2 \<and> is_cont b3 \<and> 0x10000 \<le> c \<and> c < 0x110000 then
               (case utf8_decode r of Inl e \<Rightarrow> Inl e | Inr s \<Rightarrow> Inr (c # s))
             else Inl UnicodeDecodeError
         | _ \<Rightarrow> Inl UnicodeDecodeError)
      else Inl UnicodeDecodeError)"

text \<open>
  The text that a tool can receive: every element is a Unicode scalar value (a code
  point that is not a surrogate).
\<close>

definition scalar_value :: "nat \<Rightarrow> bool" where
  "scalar_value c = (c < 0x110000 \<and> \<not> (0xD800 \<le> c \<and> c \<le> 0xDFFF))"

definition valid_text :: "pystr \<Rightarrow> bool" where
  "valid_text s = list_all scalar_value s"

text \<open>
  \<open>base64.urlsafe_b64encode\<close> is \<open>b64encode\<close> followed by the translation of \<open>+\<close> to
  \<open>-\<close> and of \<open>/\<close> to \<open>_\<close>. \<open>b64encode\<close> turns each group of three bytes into four
  characters of the alphabet and pads the last group with \<open>=\<close>.
\<close>

definition b64_alphabet :: pystr where
  "b64_alphabet = lit ''ABCDEFGHIJKLMNOPQRSTUVWXYZabcdefghijklmnopqrstuvwxyz0123456789+/''"

definition b64_char :: "nat \<Rightarrow> nat" where
  "b64_char n = b64_alphabet ! n"

fun b64encode :: "pybytes \<Rightarrow> pybytes" where
  "b64encode [] = []"
| "b64encode [a] = [b64_char (a div 4), b64_char ((a mod 4) * 16), 61, 61]"
| "b64encode [a, b] =
     [b64_char (a div 4), b64_char ((a mod 4) * 16 + b div 16), b64_char ((b mod 16) * 4), 61]"
| "b64encode (a # b # c # rest) =
     [b64_char (a div 4), b64_char ((a mod 4) * 16 + b div 16),
      b64_char ((b mod 16) * 4 + c div 64), b64_char (c mod 64)] @ b64encode rest"

definition urlsafe_translate :: "nat \<Rightarrow> nat" where
  "urlsafe_translate c = (if c = 43 then 45 else if c = 47 then 95 else c)"

definition urlsafe_b64encode :: "pybytes \<Rightarrow> pybytes" where
  "urlsafe_b64encode s = map urlsafe_translate (b64encode s)"

text \<open>\<open>encode_mermaid\<close>: \<open>base64.urlsafe_b64encode(diagram.encode()).decode()\<close>.\<close>

definition encode_mermaid :: "pystr \<Rightarrow> error + pystr" where
  "encode_mermaid diagram =
     (case utf8_encode diagram of
        Inl e \<Rightarrow> Inl e
      | Inr bs \<Rightarrow> utf8_decode (urlsafe_b64encode bs))"

text \<open>
  The reader's side of the wire format, after RFC 4648: the value of a character of
  the URL-safe alphabet, and the decoding of a padded text, four characters at a time.
\<close>

definition b64_value :: "nat \<Rightarrow> nat option" where
  "b64_value c =
     (if 65 \<le> c \<and> c \<le> 90 then Some (c - 65)
      else if 97 \<le> c \<and> c \<le> 122 then Some (c - 71)
      else if 48 \<le> c \<and> c \<le> 57 then Some (c + 4)
      else if c = 45 then Some 62
      else if c = 95 then Some 63
      else None)"

fun urlsafe_b64decode :: "pystr \<Rightarrow> pybytes option" where
  "urlsafe_b64decode [] = Some []"
| "urlsafe_b64decode (c0 # c1 # c2 # c3 # rest) =
     (case (b64_value c0, b64_value c1) of
        (Some v0, Some v1) \<Rightarrow>
          if rest = [] \<and> c2 = 61 \<and> c3 = 61 then Some [v0 * 4 + v1 div 16]
          else (case b64_value c2 of
             Some v2 \<Rightarrow>
               if rest = [] \<and> c3 = 61 then
                 Some [v0 * 4 + v1 div 16, (v1 mod 16) * 16 + v2 div 4]
               else (case (b64_value c3, urlsafe_b64decode rest) of
                  (Some v3, Some bs) \<Rightarrow>
                    Some ([v0 * 4 + v1 div 16, (v1 mod 16) * 16 + v2 div 4,
                           (v2 mod 4) * 64 + v3] @ bs)
                | _ \<Rightarrow> None)
           | None \<Rightarrow> None)
      | _ \<Rightarrow> None)"
| "urlsafe_b64decode _ = None"

definition decode_payload :: "pystr \<Rightarrow> pystr option" where
  "decode_payload seg =
     (case urlsafe_b64decode seg of
        None \<Rightarrow> None
      | Some bs \<Rightarrow> (case utf8_decode bs of Inl e \<Rightarrow> None | Inr s \<Rightarrow> Some s))"

text \<open>The last path segment of a URL: the text after its last \<open>/\<close>.\<close>

definition last_segment :: "pystr \<Rightarrow> pystr" where
  "last_segment url = rev (takeWhile (\<lambda>c. c \<noteq> 47) (rev url))"

section \<open>The diagram renderer\<close>

text \<open>
  The first line of the markup sent to the renderer, the f-string
  \<^verbatim>\<open>%%{{init: {{'theme': '{theme}'}}}}%%\<close>; the character 39 is the apostrophe.
\<close>

definition theme_directive :: "pystr \<Rightarrow> pystr" where
  "theme_directive theme = lit ''%%{init: {'theme': '' @ [39] @ theme @ [39] @ lit ''}}%%''"

text \<open>
  What the one \<open>client.head(image_url)\<close> call does: it returns a response with a
  status code, or it raises (a transport error, a timeout, a malformed URL), which the
  \<open>except Exception\<close> clause catches. The transport is a parameter of the model.
\<close>

datatype probe = Response int | Raised

definition draw_logic_flow ::
  "Config \<Rightarrow> (pystr \<Rightarrow> probe) \<Rightarrow> pystr \<Rightarrow> pystr \<Rightarrow> pystr \<Rightarrow> pystr option \<Rightarrow> error + pydict" where
  "draw_logic_flow cfg head diagram_code diagram_type theme title =
     (let themed_code = theme_directive theme @ lit ''\<newline>'' @ diagram_code in
      case encode_mermaid themed_code of
        Inl e \<Rightarrow> Inl e
      | Inr encoded \<Rightarrow>
          let image_url = MERMAID_BASE_URL cfg @ lit ''/img/'' @ encoded;
              edit_url = MERMAID_LIVE_URL cfg @ lit ''/edit#base64:'' @ encoded;
              accessible = (case head image_url of
                              Response status_code \<Rightarrow> status_code = 200
                            | Raised \<Rightarrow> False)
          in Inr [(lit ''success'', JBool True),
                  (lit ''type'', JStr (lit ''diagram'')),
                  (lit ''diagram_type'', JStr diagram_type),
                  (lit ''title'', json_of_opt title),
                  (lit ''image_url'', JStr image_url),
                  (lit ''edit_url'', JStr edit_url),
                  (lit ''accessible'', JBool accessible),
                  (lit ''theme'', JStr theme)])"

section \<open>The mindmap renderer\<close>

text \<open>
  A branch is a dict with the keys \<open>name\<close> (a string) and \<open>children\<close> (a list of
  strings), as the docstring gives it; either key may be missing, which \<open>.get\<close>
  replaces by \<open>""\<close> and \<open>[]\<close>. A missing key is \<open>None\<close> here.
\<close>

record branch =
  bname :: "pystr option"
  bchildren :: "pystr list option"

definition mindmap_lines :: "pystr \<Rightarrow> pystr \<Rightarrow> branch list \<Rightarrow> pystr list" where
  "mindmap_lines theme central_topic branches =
     foldl (\<lambda>lines branch.
              let branch_name = (case bname branch of Some n \<Rightarrow> n | None \<Rightarrow> []);
                  children = (case bchildren branch of Some cs \<Rightarrow> cs | None \<Rightarrow> []);
                  lines' = lines @ [lit ''    '' @ branch_name]
              in foldl (\<lambda>lines child. lines @ [lit ''      '' @ child]) lines' children)
       [theme_directive theme, lit ''mindmap'', lit ''  root(('' @ central_topic @ lit ''))'']
       branches"

definition render_mindmap ::
  "Config \<Rightarrow> pystr \<Rightarrow> branch list \<Rightarrow> pystr \<Rightarrow> pystr option \<Rightarrow> error + pydict" where
  "render_mindmap cfg central_topic branches theme title =
     (let lines = mindmap_lines theme central_topic branches;
          diagram_code = str_join (lit ''\<newline>'') lines in
      case encode_mermaid diagram_code of
        Inl e \<Rightarrow> Inl e
      | Inr encoded \<Rightarrow>
          let image_url = MERMAID_BASE_URL cfg @ lit ''/img/'' @ encoded;
              edit_url = MERMAID_LIVE_URL cfg @ lit ''/edit#base64:'' @ encoded
          in Inr [(lit ''success'', JBool True),
                  (lit ''type'', JStr (lit ''mindmap'')),
                  (lit ''title'', JStr (if truthy title then the title else central_topic)),
                  (lit ''image_url'', JStr image_url),
                  (lit ''edit_url'', JStr edit_url),
                  (lit ''theme'', JStr theme),
                  (lit ''branch_count'', JInt (int (length branches)))])"

definition valid_branch :: "branch \<Rightarrow> bool" where
  "valid_branch b =
     ((case bname b of Some n \<Rightarrow> valid_text n | None \<Rightarrow> True) \<and>
      (case bchildren b of Some cs \<Rightarrow> list_all valid_text cs | None \<Rightarrow> True))"

section \<open>Library functions used by the chart plotter\<close>

text \<open>
  \<open>s.replace(old, new)\<close>: every occurrence of \<open>old\<close>, found from the left and not
  overlapping, becomes \<open>new\<close>; with an empty \<open>old\<close>, \<open>new\<close> is put before every
  character and at the end.
\<close>

fun replace_from :: "pystr \<Rightarrow> pystr \<Rightarrow> pystr \<Rightarrow> pystr" where
  "replace_from old new [] = []"
| "replace_from old new (c # cs) =
     (if take (length old) (c # cs) = old
      then new @ replace_from old new (drop (length old - 1) cs)
      else c # replace_from old new cs)"

definition str_replace :: "pystr \<Rightarrow> pystr \<Rightarrow> pystr \<Rightarrow> pystr" where
  "str_replace s old new =
     (if old = [] then new @ concat (map (\<lambda>c. c # new) s) else replace_from old new s)"

text \<open>
  \<open>json.dumps\<close> with its defaults: \<open>ensure_ascii\<close>, the separators \<open>", "\<close> and
  \<open>": "\<close>, keys in insertion order. A character outside \<open>' '..'~'\<close>, a quote and a
  backslash are escaped; a code point beyond \<open>0xFFFF\<close> becomes a surrogate pair.
  The character 92 is the backslash, 34 the double quote.
\<close>

definition hex_digit :: "nat \<Rightarrow> nat" where
  "hex_digit d = (if d < 10 then 48 + d else 87 + d)"

definition hex4 :: "nat \<Rightarrow> pystr" where
  "hex4 n = [hex_digit (n div 4096 mod 16), hex_digit (n div 256 mod 16),
             hex_digit (n div 16 mod 16), hex_digit (n mod 16)]"

definition json_escape_char :: "nat \<Rightarrow> pystr" where
  "json_escape_char c =
     (if c = 34 then [92, 34]
      else if c = 92 then [92, 92]
      else if c = 10 then [92, 110]
      else if c = 13 then [92, 114]
      else if c = 9 then [92, 116]
      else if c = 8 then [92, 98]
      else if c = 12 then [92, 102]
      else if 32 \<le> c \<and> c \<le> 126 then [c]
      else if c < 0x10000 then [92, 117] @ hex4 c
      else [92, 117] @ hex4 (0xD800 + (c - 0x10000) div 1024 mod 1024)
           @ [92, 117] @ hex4 (0xDC00 + (c - 0x10000) mod 1024))"

definition json_string :: "pystr \<Rightarrow> pystr" where
  "json_string s = [34] @ concat (map json_escape_char s) @ [34]"

definition json_float :: "string \<Rightarrow> pystr" where
  "json_float r =
     (if r = ''nan'' then lit ''NaN''
      else if r = ''inf'' then lit ''Infinity''
      else if r = ''-inf'' then lit ''-Infinity''
      else lit r)"

fun json_dumps :: "json \<Rightarrow> pystr" where
  "json_dumps JNull = lit ''null''"
| "json_dumps (JBool b) = (if b then lit ''true'' else lit ''false'')"
| "json_dumps (JInt i) = str_of_int i"
| "json_dumps (JFloat r) = json_float r"
| "json_dumps (JStr s) = json_string s"
| "json_dumps (JList xs) = lit ''['' @ str_join (lit '', '') (map json_dumps xs) @ lit '']''"
| "json_dumps (JObj kvs) =
     lit ''{'' @ str_join (lit '', '')
                  (map (\<lambda>(k, v). json_string k @ lit '': '' @ json_dumps v) kvs) @ lit ''}''"

text \<open>
  \<open>urllib.parse.quote_plus\<close> encodes the string as UTF-8 and keeps the letters, the
  digits and \<open>_.-~\<close>; a space becomes \<open>+\<close>, every other byte \<open>%XX\<close> in upper case.
  \<open>urlencode\<close> applies it to each key and to \<open>str\<close> of each value and joins the pairs
  with \<open>&\<close>.
\<close>

definition always_safe :: "nat \<Rightarrow> bool" where
  "always_safe b =
     ((65 \<le> b \<and> b \<le> 90) \<or> (97 \<le> b \<and> b \<le> 122) \<or> (48 \<le> b \<and> b \<le> 57)
      \<or> b = 95 \<or> b = 46 \<or> b = 45 \<or> b = 126)"

definition HEX_digit :: "nat \<Rightarrow> nat" where
  "HEX_digit d = (if d < 10 then 48 + d else 55 + d)"

definition quote_byte :: "nat \<Rightarrow> pystr" where
  "quote_byte b =
     (if always_safe b then [b]
      else if b = 32 then [43]
      else [37, HEX_digit (b div 16), HEX_digit (b mod 16)])"

definition quote_plus :: "pystr \<Rightarrow> error + pystr" where
  "quote_plus s =
     (case utf8_encode s of Inl e \<Rightarrow> Inl e | Inr bs \<Rightarrow> Inr (concat (map quote_byte bs)))"

datatype param = PStr pystr | PInt int

definition str_of_param :: "param \<Rightarrow> pystr" where
  "str_of_param v = (case v of PStr s \<Rightarrow> s | PInt i \<Rightarrow> str_of_int i)"

fun urlencode_items :: "(pystr \<times> param) list \<Rightarrow> error + pystr list" where
  "urlencode_items [] = Inr []"
| "urlencode_items ((k, v) # query) =
     (case quote_plus k of
        Inl e \<Rightarrow> Inl e
      | Inr k' \<Rightarrow>
          (case quote_plus (str_of_param v) of
             Inl e \<Rightarrow> Inl e
           | Inr v' \<Rightarrow>
               (case urlencode_items query of
                  Inl e \<Rightarrow> Inl e
                | Inr l \<Rightarrow> Inr ((k' @ lit ''='' @ v') # l))))"

definition urlencode :: "(pystr \<times> param) list \<Rightarrow> error + pystr" where
  "urlencode query =
     (case urlencode_items query of Inl e \<Rightarrow> Inl e | Inr l \<Rightarrow> Inr (str_join (lit ''&'') l))"

section \<open>The chart plotter\<close>

text \<open>
  The body of the loop \<open>for i, ds in enumerate(datasets)\<close>. It stores into the
  caller's dict \<open>ds\<close>, so the model returns the dict as it is after the body, also when
  \<open>.replace\<close> raises because the stored background is not a string.
\<close>

definition assign_dataset :: "pystr list \<Rightarrow> nat \<Rightarrow> pydict \<Rightarrow> error option \<times> pydict" where
  "assign_dataset colors i ds =
     (if \<not> dict_contains ds (lit ''backgroundColor'') \<and> colors = [] then
        (Some ZeroDivisionError, ds)
      else
        let ds1 = (if \<not> dict_contains ds (lit ''backgroundColor'')
                   then dict_set ds (lit ''backgroundColor'') (JStr (colors ! (i mod length colors)))
                   else ds)
        in if \<not> dict_contains ds1 (lit ''borderColor'') then
             (case map_of ds1 (lit ''backgroundColor'') of
                Some (JStr bg) \<Rightarrow>
                  (None, dict_set ds1 (lit ''borderColor'')
                           (JStr (str_replace (str_replace bg (lit ''0.7'') (lit ''1''))
                                    (lit ''0.8'') (lit ''1''))))
              | Some _ \<Rightarrow> (Some AttributeError, ds1)
              | None \<Rightarrow> (Some (KeyError (lit ''backgroundColor'')), ds1))
           else (None, ds1))"

text \<open>
  The loop: it stops at the first exception and leaves the later datasets as they
  were. The datasets of a request are separate dicts (the arguments of a tool call are
  deserialised from JSON), so a store into one of them does not show in another.
\<close>

fun assign_colors :: "pystr list \<Rightarrow> nat \<Rightarrow> pydict list \<Rightarrow> error option \<times> pydict list" where
  "assign_colors colors i [] = (None, [])"
| "assign_colors colors i (ds # rest) =
     (case assign_dataset colors i ds of
        (Some e, ds') \<Rightarrow> (Some e, ds' # rest)
      | (None, ds') \<Rightarrow>
          (case assign_colors colors (Suc i) rest of (r, rest') \<Rightarrow> (r, ds' # rest')))"

text \<open>The dict \<open>chart_config\<close>, with the title entry added to \<open>plugins\<close> when there is one.\<close>

definition chart_config ::
  "chart_theme \<Rightarrow> pystr \<Rightarrow> pystr list \<Rightarrow> pydict list \<Rightarrow> pystr option \<Rightarrow> json" where
  "chart_config theme_config chart_type labels datasets title =
     (let ticks = JObj [(lit ''ticks'', JObj [(lit ''color'', JStr (font theme_config))]),
                        (lit ''grid'', JObj [(lit ''color'', JStr (grid theme_config))])];
          scales = (if chart_type \<in> set [lit ''pie'', lit ''doughnut'', lit ''radar'']
                    then JObj []
                    else JObj [(lit ''x'', ticks), (lit ''y'', ticks)]);
          legend = (lit ''legend'',
                      JObj [(lit ''labels'', JObj [(lit ''color'', JStr (font theme_config))])]);
          plugins = (if truthy title
                     then [legend,
                           (lit ''title'',
                              JObj [(lit ''display'', JBool True),
                                    (lit ''text'', JStr (the title)),
                                    (lit ''color'', JStr (font theme_config)),
                                    (lit ''font'', JObj [(lit ''size'', JInt 16)])])]
                     else [legend])
      in JObj [(lit ''type'', JStr chart_type),
               (lit ''data'', JObj [(lit ''labels'', JList (map JStr labels)),
                                     (lit ''datasets'', JList (map JObj datasets))]),
               (lit ''options'', JObj [(lit ''responsive'', JBool False),
                                        (lit ''plugins'', JObj plugins),
                                        (lit ''scales'', scales)])])"

text \<open>
  The tool. \<open>width\<close> and \<open>height\<close> are optional arguments: \<open>None\<close> stands for an
  argument that the caller omits, which the signature replaces by its default,
  \<open>width: int = 500\<close> and \<open>height: int = 300\<close>. The second component of the result
  is the list \<open>datasets\<close> as the call leaves it.
\<close>

definition plot_data_chart ::
  "Config \<Rightarrow> pystr \<Rightarrow> pystr list \<Rightarrow> pydict list \<Rightarrow> pystr option \<Rightarrow> pystr \<Rightarrow> pystr
     \<Rightarrow> int option \<Rightarrow> int option \<Rightarrow> (error + pydict) \<times> pydict list" where
  "plot_data_chart cfg chart_type labels datasets title theme color_palette width_arg height_arg =
     (let width = (case width_arg of None \<Rightarrow> 500 | Some w \<Rightarrow> w);
          height = (case height_arg of None \<Rightarrow> 300 | Some h \<Rightarrow> h) in
      case get_chart_theme theme of
        Inl e \<Rightarrow> (Inl e, datasets)
      | Inr theme_config \<Rightarrow>
      (case get_color_palette color_palette of
        Inl e \<Rightarrow> (Inl e, datasets)
      | Inr colors \<Rightarrow>
      (case assign_colors colors 0 datasets of
        (Some e, datasets') \<Rightarrow> (Inl e, datasets')
      | (None, datasets') \<Rightarrow>
          let chart_json = json_dumps (chart_config theme_config chart_type labels datasets' title);
              params = [(lit ''c'', PStr chart_json), (lit ''w'', PInt width),
                        (lit ''h'', PInt height), (lit ''bkg'', PStr (background theme_config))]
          in (case urlencode params of
                Inl e \<Rightarrow> (Inl e, datasets')
              | Inr query \<Rightarrow>
                  let chart_url = QUICKCHART_URL cfg @ lit ''?'' @ query in
                  if int (length chart_url) > QUICKCHART_MAX_URL_LENGTH cfg then
                    (Inr [(lit ''success'', JBool False),
                          (lit ''error'', JStr (lit ''Chart data too large. Reduce data points.''))],
                     datasets')
                  else
                    (Inr [(lit ''success'', JBool True),
                          (lit ''type'', JStr (lit ''chart'')),
                          (lit ''chart_type'', JStr chart_type),
                          (lit ''title'', json_of_opt title),
                          (lit ''image_url'', JStr chart_url),
                          (lit ''theme'', JStr theme),
                          (lit ''dimensions'', JObj [(lit ''width'', JInt width),
                                                      (lit ''height'', JInt height)])],
                     datasets')))))"

text \<open>
  The datasets on which the loop raises nothing: a dataset that has no \<open>borderColor\<close>
  has no \<open>backgroundColor\<close> either, or a string as its \<open>backgroundColor\<close>.
\<close>

definition colorable :: "pydict \<Rightarrow> bool" where
  "colorable ds =
     (dict_contains ds (lit ''borderColor'') \<or>
      (case map_of ds (lit ''backgroundColor'') of
         None \<Rightarrow> True | Some (JStr bg) \<Rightarrow> True | Some _ \<Rightarrow> False))"

text \<open>
  Following the specification's words, "the fill color with the trailing alpha token
  replaced by 1": in a colour \<open>rgba(r, g, b, a)\<close> the trailing token is the text
  between the last space and the closing parenthesis.
\<close>

definition with_alpha_one :: "pystr \<Rightarrow> pystr" where
  "with_alpha_one color = rev (dropWhile (\<lambda>c. c \<noteq> 32) (rev color)) @ lit ''1)''"

chapter \<open>Properties\<close>

section \<open>Lookups fall back to the named default\<close>

lemma dict_index_default_palette:
  "dict_index COLOR_PALETTES (lit ''default'') = Inr (snd (COLOR_PALETTES ! 0))"
  by (simp add: dict_index_def COLOR_PALETTES_def lit_def)

lemma dict_index_light_theme:
  "dict_index CHART_THEMES (lit ''light'') = Inr (snd (CHART_THEMES ! 0))"
  by (simp add: dict_index_def CHART_THEMES_def lit_def)

lemma dict_index_default_style:
  "dict_index TABLE_STYLES (lit ''default'') = Inr (snd (TABLE_STYLES ! 0))"
  by (simp add: dict_index_def TABLE_STYLES_def lit_def)

lemma get_color_palette_eq:
  "get_color_palette name =
     Inr (case map_of COLOR_PALETTES name of Some p \<Rightarrow> p | None \<Rightarrow> snd (COLOR_PALETTES ! 0))"
  by (simp add: get_color_palette_def dict_index_default_palette dict_get_def)

lemma get_chart_theme_eq:
  "get_chart_theme name =
     Inr (case map_of CHART_THEMES name of Some t \<Rightarrow> t | None \<Rightarrow> snd (CHART_THEMES ! 0))"
  by (simp add: get_chart_theme_def dict_index_light_theme dict_get_def)

lemma get_table_style_eq:
  "get_table_style name =
     Inr (case map_of TABLE_STYLES name of Some s \<Rightarrow> s | None \<Rightarrow> snd (TABLE_STYLES ! 0))"
  by (simp add: get_table_style_def dict_index_default_style dict_get_def)

text \<open>
  C9. For every string, each of the three lookups returns (it never raises): the entry
  stored under that name when the table has one, and otherwise the entry stored under
  the default name (\<open>light\<close> for themes, \<open>default\<close> for palettes and styles), which
  each table has.
\<close>

theorem lookups_fall_back:
  "\<exists>dt dp ds.
     map_of CHART_THEMES (lit ''light'') = Some dt \<and>
     map_of COLOR_PALETTES (lit ''default'') = Some dp \<and>
     map_of TABLE_STYLES (lit ''default'') = Some ds \<and>
     get_chart_theme name = Inr (case map_of CHART_THEMES name of Some t \<Rightarrow> t | None \<Rightarrow> dt) \<and>
     get_color_palette name = Inr (case map_of COLOR_PALETTES name of Some p \<Rightarrow> p | None \<Rightarrow> dp) \<and>
     get_table_style name = Inr (case map_of TABLE_STYLES name of Some s \<Rightarrow> s | None \<Rightarrow> ds)"
proof -
  have t: "map_of CHART_THEMES (lit ''light'') = Some (snd (CHART_THEMES ! 0))"
    by (simp add: CHART_THEMES_def lit_def)
  have p: "map_of COLOR_PALETTES (lit ''default'') = Some (snd (COLOR_PALETTES ! 0))"
    by (simp add: COLOR_PALETTES_def lit_def)
  have s: "map_of TABLE_STYLES (lit ''default'') = Some (snd (TABLE_STYLES ! 0))"
    by (simp add: TABLE_STYLES_def lit_def)
  show ?thesis
    using t p s get_chart_theme_eq [of name] get_color_palette_eq [of name]
      get_table_style_eq [of name]
    by blast
qed

section \<open>Loops that only append\<close>

lemma foldl_append_map: "foldl (\<lambda>ls x. ls @ [f x]) acc xs = acc @ map f xs"
  by (induction xs arbitrary: acc) simp_all

lemma map_snd_enumerate_fun: "map (\<lambda>p. f (snd p)) (enumerate n xs) = map f xs"
proof -
  have "map (\<lambda>p. f (snd p)) (enumerate n xs) = map f (map snd (enumerate n xs))"
    by (simp only: map_map comp_def)
  then show ?thesis by simp
qed

lemma map_enumerate_no_hit:
  assumes "\<forall>i<length row. \<not> P i"
  shows "map (\<lambda>(i, cell). if P i then f cell else cell) (enumerate 0 row) = row"
proof -
  have "map (\<lambda>(i, cell). if P i then f cell else cell) (enumerate 0 row) = map snd (enumerate 0 row)"
    using assms by (intro map_cong) (auto simp: in_set_enumerate_eq)
  then show ?thesis by simp
qed

section \<open>Table validation\<close>

lemma first_mismatch_None:
  "(first_mismatch n k rows = None) = (\<forall>row\<in>set rows. length row = n)"
  by (induction rows arbitrary: k) simp_all

lemma first_mismatch_Some:
  "i < length rows \<Longrightarrow> length (rows ! i) \<noteq> n \<Longrightarrow> \<forall>j<i. length (rows ! j) = n
     \<Longrightarrow> first_mismatch n k rows = Some (k + i)"
proof (induction rows arbitrary: k i)
  case Nil
  then show ?case by simp
next
  case (Cons row rows)
  show ?case
  proof (cases i)
    case 0
    with Cons.prems show ?thesis by simp
  next
    case (Suc i')
    from Cons.prems Suc have "length row = n" by auto
    moreover have "first_mismatch n (Suc k) rows = Some (Suc k + i')"
      using Cons.prems Suc by (intro Cons.IH) auto
    ultimately show ?thesis using Suc by simp
  qed
qed

lemma digits_value_str_of_nat: "digits_value (str_of_nat n) = n"
proof (induction n rule: str_of_nat.induct)
  case (1 n)
  show ?case
  proof (cases "n < 10")
    case True
    then show ?thesis by (simp add: str_of_nat.simps [of n] digits_value_def)
  next
    case False
    with 1 have "digits_value (str_of_nat (n div 10)) = n div 10" by simp
    with False show ?thesis
      by (simp add: str_of_nat.simps [of n] digits_value_def)
  qed
qed

lemma row_number_reads_back: "digits_value (str_of_int (int i + 1)) = i + 1"
proof -
  have "str_of_int (int i + 1) = str_of_nat (i + 1)"
    by (simp add: str_of_int_def nat_add_distrib)
  then show ?thesis by (simp add: digits_value_str_of_nat)
qed

text \<open>
  C6. When \<open>headers\<close> or \<open>rows\<close> is empty, the result is the failure record with the
  message that they cannot be empty. Otherwise, when row \<open>i\<close> (counted from 0) is the
  first one whose length is not the header count, the result is the failure record
  whose message carries the decimal text of \<open>i + 1\<close>. The failure record has the keys
  \<open>success\<close> and \<open>error\<close> only: no table text.
\<close>

theorem generate_table_validation:
  "(headers = [] \<or> rows = [] \<longrightarrow>
      generate_table headers rows title format style highlight_column =
        Inr [(lit ''success'', JBool False),
             (lit ''error'', JStr (lit ''Headers and rows cannot be empty.''))]) \<and>
   (headers \<noteq> [] \<and> i < length rows \<and> length (rows ! i) \<noteq> length headers \<and>
      (\<forall>j<i. length (rows ! j) = length headers) \<longrightarrow>
      generate_table headers rows title format style highlight_column =
        Inr [(lit ''success'', JBool False),
             (lit ''error'', JStr (lit ''Row '' @ str_of_int (int i + 1)
                                    @ lit '' column count mismatch.''))] \<and>
      digits_value (str_of_int (int i + 1)) = i + 1)"
proof (intro conjI impI)
  assume "headers = [] \<or> rows = []"
  then show "generate_table headers rows title format style highlight_column =
        Inr [(lit ''success'', JBool False),
             (lit ''error'', JStr (lit ''Headers and rows cannot be empty.''))]"
    by (simp add: generate_table_def)
next
  assume a: "headers \<noteq> [] \<and> i < length rows \<and> length (rows ! i) \<noteq> length headers \<and>
      (\<forall>j<i. length (rows ! j) = length headers)"
  then have ne: "rows \<noteq> []" by auto
  from a have "first_mismatch (length headers) 0 rows = Some (0 + i)"
    by (intro first_mismatch_Some) auto
  with a ne show "generate_table headers rows title format style highlight_column =
        Inr [(lit ''success'', JBool False),
             (lit ''error'', JStr (lit ''Row '' @ str_of_int (int i + 1)
                                    @ lit '' column count mismatch.''))]"
    by (simp add: generate_table_def)
next
  show "digits_value (str_of_int (int i + 1)) = i + 1"
    by (rule row_number_reads_back)
qed

theorem generate_table_validation_witness:
  "generate_table [] [[lit ''x'']] None (lit ''markdown'') (lit ''default'') None =
     Inr [(lit ''success'', JBool False),
          (lit ''error'', JStr (lit ''Headers and rows cannot be empty.''))] \<and>
   generate_table [lit ''A'', lit ''B''] [[lit ''1'', lit ''2''], [lit ''3''], []]
       None (lit ''markdown'') (lit ''default'') None =
     Inr [(lit ''success'', JBool False),
          (lit ''error'', JStr (lit ''Row 2 column count mismatch.''))] \<and>
   map_of [(lit ''success'', JBool False),
          (lit ''error'', JStr (lit ''Row 2 column count mismatch.''))] (lit ''table'') = None"
proof -
  have row: "lit ''Row '' @ str_of_int (int 1 + 1) @ lit '' column count mismatch.''
               = lit ''Row 2 column count mismatch.''"
    by (simp add: str_of_int_def str_of_nat.simps lit_def)
  show ?thesis
    using generate_table_validation [of "[]" "[[lit ''x'']]" None "lit ''markdown''" "lit ''default''" None 0]
      generate_table_validation [of "[lit ''A'', lit ''B'']" "[[lit ''1'', lit ''2''], [lit ''3''], []]"
         None "lit ''markdown''" "lit ''default''" None 1]
    unfolding row
    by (simp add: lit_def)
qed

section \<open>Tables without a highlighted column\<close>

lemma separators_plain:
  assumes "highlight_column = None \<or> (\<exists>h. highlight_column = Some h \<and> (h < 0 \<or> int n \<le> h))"
  shows "map (\<lambda>i. if highlight_column = Some (int i) then a else b) [0..<n] = replicate n b"
proof -
  have "map (\<lambda>i. if highlight_column = Some (int i) then a else b) [0..<n] = map (\<lambda>i. b) [0..<n]"
    using assms by (intro map_cong) auto
  then show ?thesis by (simp add: map_replicate_const)
qed

lemma markdown_table_plain:
  assumes "\<forall>row\<in>set rows. length row = length headers"
    and "highlight_column = None \<or>
         (\<exists>h. highlight_column = Some h \<and> (h < 0 \<or> int (length headers) \<le> h))"
  shows "markdown_table headers rows title highlight_column =
     str_join (lit ''\<newline>'')
       ((if truthy title then [lit ''### '' @ the title @ lit ''\<newline>''] else []) @
        [lit ''| '' @ str_join (lit '' | '') headers @ lit '' |'',
         lit ''| '' @ str_join (lit '' | '') (replicate (length headers) (lit ''---'')) @ lit '' |''] @
        map (\<lambda>row. lit ''| '' @ str_join (lit '' | '') row @ lit '' |'') rows)"
proof -
  have rows_eq: "(if highlight_column \<noteq> None
          then map (\<lambda>(i, cell). if Some (int i) = highlight_column
                                 then lit ''**'' @ cell @ lit ''**'' else cell) (enumerate 0 row)
          else row) = row" if "row \<in> set rows" for row
  proof -
    from that assms(1) have len: "length row = length headers" by simp
    have "\<forall>i<length row. \<not> (Some (int i) = highlight_column)"
      using assms(2) len by auto
    then show ?thesis
      using map_enumerate_no_hit [of row "\<lambda>i. Some (int i) = highlight_column"] by simp
  qed
  have body: "map (\<lambda>row. lit ''| '' @ str_join (lit '' | '')
                  (if highlight_column \<noteq> None
                   then map (\<lambda>(i, cell). if Some (int i) = highlight_column
                                 then lit ''**'' @ cell @ lit ''**'' else cell) (enumerate 0 row)
                   else row) @ lit '' |'') rows =
              map (\<lambda>row. lit ''| '' @ str_join (lit '' | '') row @ lit '' |'') rows"
    by (rule map_cong) (simp_all only: rows_eq)
  show ?thesis
    unfolding markdown_table_def Let_def foldl_append_map body
      separators_plain [OF assms(2)]
    by simp
qed

lemma html_table_plain:
  assumes "\<forall>row\<in>set rows. length row = length headers"
    and "highlight_column = None \<or>
         (\<exists>h. highlight_column = Some h \<and> (h < 0 \<or> int (length headers) \<le> h))"
  shows "html_table s headers rows title highlight_column =
     str_join (lit ''\<newline>'')
       ((if truthy title then [lit ''<h3>'' @ the title @ lit ''</h3>''] else []) @
        [lit ''<table style=\"border-collapse: collapse; width: 100%;\">'',
         lit ''  <thead><tr>''] @
        map (html_th s (header_bg s)) headers @
        [lit ''  </tr></thead><tbody>''] @
        concat (map (\<lambda>row. [lit ''    <tr>''] @
                      map (html_td s (lit ''transparent'') (lit ''normal'')) row @
                      [lit ''    </tr>'']) rows) @
        [lit ''  </tbody></table>''])"
proof -
  have no_hit: "\<not> (highlight_column = Some (int i))" if "i < length headers" for i
    using assms(2) that by auto
  let ?th = "\<lambda>(i, h). html_th s (if highlight_column = Some (int i)
                                   then highlight_bg s else header_bg s) h"
  let ?td = "\<lambda>(i, cell). html_td s (if highlight_column = Some (int i)
                                         then highlight_bg s else lit ''transparent'')
                                   (if highlight_column = Some (int i)
                                         then lit ''bold'' else lit ''normal'') cell"
  have heads: "foldl (\<lambda>lines p. lines @ [?th p]) acc (enumerate 0 headers)
               = acc @ map (html_th s (header_bg s)) headers" for acc
  proof -
    have "map ?th (enumerate 0 headers) = map (\<lambda>p. html_th s (header_bg s) (snd p)) (enumerate 0 headers)"
      by (rule map_cong) (auto simp: in_set_enumerate_eq no_hit)
    also have "\<dots> = map (html_th s (header_bg s)) headers"
      by (rule map_snd_enumerate_fun)
    finally show ?thesis by (simp add: foldl_append_map)
  qed
  have cells: "foldl (\<lambda>lines p. lines @ [?td p]) acc (enumerate 0 row)
               = acc @ map (html_td s (lit ''transparent'') (lit ''normal'')) row"
    if "row \<in> set rows" for acc row
  proof -
    from that assms(1) have len: "length row = length headers" by simp
    have "map ?td (enumerate 0 row)
        = map (\<lambda>p. html_td s (lit ''transparent'') (lit ''normal'') (snd p)) (enumerate 0 row)"
      by (rule map_cong) (auto simp: in_set_enumerate_eq no_hit len)
    also have "\<dots> = map (html_td s (lit ''transparent'') (lit ''normal'')) row"
      by (rule map_snd_enumerate_fun)
    finally show ?thesis by (simp add: foldl_append_map)
  qed
  have body: "foldl (\<lambda>lines row.
                  foldl (\<lambda>lines p. lines @ [?td p]) (lines @ [lit ''    <tr>'']) (enumerate 0 row)
                  @ [lit ''    </tr>'']) acc rs
        = acc @ concat (map (\<lambda>row. [lit ''    <tr>''] @
                      map (html_td s (lit ''transparent'') (lit ''normal'')) row @
                      [lit ''    </tr>'']) rs)" if "set rs \<subseteq> set rows" for acc rs
    using that
  proof (induction rs arbitrary: acc)
    case Nil
    then show ?case by simp
  next
    case (Cons r rs)
    then have r: "r \<in> set rows" and rs: "set rs \<subseteq> set rows" by auto
    show ?case
      by (simp add: cells [OF r] Cons.IH [OF rs])
  qed
  have "html_table s headers rows title highlight_column =
     str_join (lit ''\<newline>'')
       (foldl (\<lambda>lines row.
                  foldl (\<lambda>lines p. lines @ [?td p]) (lines @ [lit ''    <tr>'']) (enumerate 0 row)
                  @ [lit ''    </tr>''])
          (foldl (\<lambda>lines p. lines @ [?th p])
             ((if truthy title then [lit ''<h3>'' @ the title @ lit ''</h3>''] else []) @
              [lit ''<table style=\"border-collapse: collapse; width: 100%;\">''] @
              [lit ''  <thead><tr>''])
             (enumerate 0 headers) @ [lit ''  </tr></thead><tbody>''])
          rows @ [lit ''  </tbody></table>''])"
    by (simp add: html_table_def Let_def case_prod_unfold)
  then show ?thesis
    by (simp add: heads body [OF subset_refl])
qed

lemma generate_table_plain:
  assumes "headers \<noteq> []" and "rows \<noteq> []"
    and "\<forall>row\<in>set rows. length row = length headers"
    and "highlight_column = None \<or>
         (\<exists>h. highlight_column = Some h \<and> (h < 0 \<or> int (length headers) \<le> h))"
  shows "\<exists>s. get_table_style style = Inr s \<and>
     generate_table headers rows title format style highlight_column =
       Inr [(lit ''success'', JBool True),
            (lit ''type'', JStr (lit ''table'')),
            (lit ''format'', JStr format),
            (lit ''title'', json_of_opt title),
            (lit ''table'', JStr
               (if format = lit ''markdown'' then
                  str_join (lit ''\<newline>'')
                    ((if truthy title then [lit ''### '' @ the title @ lit ''\<newline>''] else []) @
                     [lit ''| '' @ str_join (lit '' | '') headers @ lit '' |'',
                      lit ''| '' @ str_join (lit '' | '') (replicate (length headers) (lit ''---''))
                        @ lit '' |''] @
                     map (\<lambda>row. lit ''| '' @ str_join (lit '' | '') row @ lit '' |'') rows)
                else
                  str_join (lit ''\<newline>'')
                    ((if truthy title then [lit ''<h3>'' @ the title @ lit ''</h3>''] else []) @
                     [lit ''<table style=\"border-collapse: collapse; width: 100%;\">'',
                      lit ''  <thead><tr>''] @
                     map (html_th s (header_bg s)) headers @
                     [lit ''  </tr></thead><tbody>''] @
                     concat (map (\<lambda>row. [lit ''    <tr>''] @
                                   map (html_td s (lit ''transparent'') (lit ''normal'')) row @
                                   [lit ''    </tr>'']) rows) @
                     [lit ''  </tbody></table>'']))),
            (lit ''dimensions'',
               JObj [(lit ''columns'', JInt (int (length headers))),
                     (lit ''rows'', JInt (int (length rows)))])]"
proof -
  obtain s where s: "get_table_style style = Inr s"
    using get_table_style_eq [of style] by blast
  have ok: "first_mismatch (length headers) 0 rows = None"
    using assms(3) by (simp add: first_mismatch_None)
  show ?thesis
    using assms(1,2) s ok
    by (simp add: generate_table_def markdown_table_plain [OF assms(3,4)]
          html_table_plain [OF assms(3,4)])
qed

lemma html_th_text:
  "html_th s (header_bg s) =
     (\<lambda>h. lit ''    <th style=\"border: 1px solid '' @ border s
            @ lit ''; padding: 8px; background-color: '' @ header_bg s
            @ lit ''; color: '' @ header_color s @ lit '';\">'' @ h @ lit ''</th>'')"
  by (rule ext) (simp add: html_th_def)

lemma html_td_text:
  "html_td s (lit ''transparent'') (lit ''normal'') =
     (\<lambda>cell. lit ''      <td style=\"border: 1px solid '' @ border s
            @ lit ''; padding: 8px; background-color: transparent; font-weight: normal;\">''
            @ cell @ lit ''</td>'')"
  by (rule ext) (simp add: html_td_def lit_def)

text \<open>
  C10. For a request that passes validation and whose \<open>highlight_column\<close> is \<open>None\<close>
  or lies outside \<open>[0, header count)\<close>, the call succeeds and nothing is highlighted:
  the markdown text has the separator \<open>---\<close> in every column and every cell as given,
  and in the HTML text every header cell carries the header background of the style
  and every body cell \<open>background-color: transparent; font-weight: normal\<close>. The
  text of each cell is written out.
\<close>

theorem generate_table_no_highlight:
  assumes "headers \<noteq> []" and "rows \<noteq> []"
    and "\<forall>row\<in>set rows. length row = length headers"
    and "highlight_column = None \<or>
         (\<exists>h. highlight_column = Some h \<and> (h < 0 \<or> int (length headers) \<le> h))"
  shows "\<exists>s. get_table_style style = Inr s \<and>
     generate_table headers rows title format style highlight_column =
       Inr [(lit ''success'', JBool True),
            (lit ''type'', JStr (lit ''table'')),
            (lit ''format'', JStr format),
            (lit ''title'', json_of_opt title),
            (lit ''table'', JStr
               (if format = lit ''markdown'' then
                  str_join (lit ''\<newline>'')
                    ((if truthy title then [lit ''### '' @ the title @ lit ''\<newline>''] else []) @
                     [lit ''| '' @ str_join (lit '' | '') headers @ lit '' |'',
                      lit ''| '' @ str_join (lit '' | '') (replicate (length headers) (lit ''---''))
                        @ lit '' |''] @
                     map (\<lambda>row. lit ''| '' @ str_join (lit '' | '') row @ lit '' |'') rows)
                else
                  str_join (lit ''\<newline>'')
                    ((if truthy title then [lit ''<h3>'' @ the title @ lit ''</h3>''] else []) @
                     [lit ''<table style=\"border-collapse: collapse; width: 100%;\">'',
                      lit ''  <thead><tr>''] @
                     map (\<lambda>h. lit ''    <th style=\"border: 1px solid '' @ border s
                                @ lit ''; padding: 8px; background-color: '' @ header_bg s
                                @ lit ''; color: '' @ header_color s @ lit '';\">'' @ h
                                @ lit ''</th>'') headers @
                     [lit ''  </tr></thead><tbody>''] @
                     concat (map (\<lambda>row. [lit ''    <tr>''] @
                                   map (\<lambda>cell. lit ''      <td style=\"border: 1px solid '' @ border s
                                          @ lit ''; padding: 8px; background-color: transparent; font-weight: normal;\">''
                                          @ cell @ lit ''</td>'') row @
                                   [lit ''    </tr>'']) rows) @
                     [lit ''  </tbody></table>'']))),
            (lit ''dimensions'',
               JObj [(lit ''columns'', JInt (int (length headers))),
                     (lit ''rows'', JInt (int (length rows)))])]"
  using generate_table_plain [OF assms, of style title format]
  unfolding html_th_text html_td_text .

theorem generate_table_no_highlight_witness:
  "generate_table [lit ''A'', lit ''B''] [[lit ''1'', lit ''2'']] None (lit ''markdown'')
       (lit ''default'') (Some 2) =
     Inr [(lit ''success'', JBool True),
          (lit ''type'', JStr (lit ''table'')),
          (lit ''format'', JStr (lit ''markdown'')),
          (lit ''title'', JNull),
          (lit ''table'', JStr (lit ''| A | B |\<newline>| --- | --- |\<newline>| 1 | 2 |'')),
          (lit ''dimensions'', JObj [(lit ''columns'', JInt 2), (lit ''rows'', JInt 1)])] \<and>
   generate_table [lit ''A'', lit ''B''] [[lit ''1'', lit ''2'']] None (lit ''html'')
       (lit ''default'') (Some (- 1)) =
     Inr [(lit ''success'', JBool True),
          (lit ''type'', JStr (lit ''table'')),
          (lit ''format'', JStr (lit ''html'')),
          (lit ''title'', JNull),
          (lit ''table'', JStr (lit ''<table style=\"border-collapse: collapse; width: 100%;\">\<newline>  <thead><tr>\<newline>    <th style=\"border: 1px solid #ddd; padding: 8px; background-color: #4CAF50; color: white;\">A</th>\<newline>    <th style=\"border: 1px solid #ddd; padding: 8px; background-color: #4CAF50; color: white;\">B</th>\<newline>  </tr></thead><tbody>\<newline>    <tr>\<newline>      <td style=\"border: 1px solid #ddd; padding: 8px; background-color: transparent; font-weight: normal;\">1</td>\<newline>      <td style=\"border: 1px solid #ddd; padding: 8px; background-color: transparent; font-weight: normal;\">2</td>\<newline>    </tr>\<newline>  </tbody></table>'')),
          (lit ''dimensions'', JObj [(lit ''columns'', JInt 2), (lit ''rows'', JInt 1)])]"
proof -
  let ?H = "[lit ''A'', lit ''B'']"
  let ?R = "[[lit ''1'', lit ''2'']]"
  have s: "get_table_style (lit ''default'') =
      Inr \<lparr>header_bg = lit ''#4CAF50'', header_color = lit ''white'',
           highlight_bg = lit ''#E3F2FD'', border = lit ''#ddd''\<rparr>"
    by (simp add: get_table_style_def dict_index_def dict_get_def TABLE_STYLES_def lit_def)
  have h: "?H \<noteq> []" "?R \<noteq> []" "\<forall>row\<in>set ?R. length row = length ?H"
    by simp_all
  have out: "(Some 2 :: int option) = None \<or>
         (\<exists>h. (Some 2 :: int option) = Some h \<and> (h < 0 \<or> int (length ?H) \<le> h))"
    by simp
  have neg: "(Some (- 1) :: int option) = None \<or>
         (\<exists>h. (Some (- 1) :: int option) = Some h \<and> (h < 0 \<or> int (length ?H) \<le> h))"
    by simp
  from generate_table_no_highlight [OF h out, of "lit ''default''" None "lit ''markdown''"]
  obtain s1 where s1: "get_table_style (lit ''default'') = Inr s1"
    and md: "generate_table ?H ?R None (lit ''markdown'') (lit ''default'') (Some 2) =
       Inr [(lit ''success'', JBool True),
            (lit ''type'', JStr (lit ''table'')),
            (lit ''format'', JStr (lit ''markdown'')),
            (lit ''title'', json_of_opt None),
            (lit ''table'', JStr
               (str_join (lit ''\<newline>'')
                    ((if truthy None then [lit ''### '' @ the None @ lit ''\<newline>''] else []) @
                     [lit ''| '' @ str_join (lit '' | '') ?H @ lit '' |'',
                      lit ''| '' @ str_join (lit '' | '') (replicate (length ?H) (lit ''---''))
                        @ lit '' |''] @
                     map (\<lambda>row. lit ''| '' @ str_join (lit '' | '') row @ lit '' |'') ?R))),
            (lit ''dimensions'',
               JObj [(lit ''columns'', JInt (int (length ?H))),
                     (lit ''rows'', JInt (int (length ?R)))])]"
    by auto
  have markdown: "generate_table ?H ?R None (lit ''markdown'') (lit ''default'') (Some 2) =
     Inr [(lit ''success'', JBool True),
          (lit ''type'', JStr (lit ''table'')),
          (lit ''format'', JStr (lit ''markdown'')),
          (lit ''title'', JNull),
          (lit ''table'', JStr (lit ''| A | B |\<newline>| --- | --- |\<newline>| 1 | 2 |'')),
          (lit ''dimensions'', JObj [(lit ''columns'', JInt 2), (lit ''rows'', JInt 1)])]"
    unfolding md by (simp add: lit_def truthy_def json_of_opt_def)
  have ne: "lit ''html'' \<noteq> lit ''markdown''" by (simp add: lit_def)
  from generate_table_no_highlight [OF h neg, of "lit ''default''" None "lit ''html''"]
  obtain s2 where s2: "get_table_style (lit ''default'') = Inr s2"
    and html: "generate_table ?H ?R None (lit ''html'') (lit ''default'') (Some (- 1)) =
       Inr [(lit ''success'', JBool True),
            (lit ''type'', JStr (lit ''table'')),
            (lit ''format'', JStr (lit ''html'')),
            (lit ''title'', json_of_opt None),
            (lit ''table'', JStr
               (str_join (lit ''\<newline>'')
                    ((if truthy None then [lit ''<h3>'' @ the None @ lit ''</h3>''] else []) @
                     [lit ''<table style=\"border-collapse: collapse; width: 100%;\">'',
                      lit ''  <thead><tr>''] @
                     map (\<lambda>h. lit ''    <th style=\"border: 1px solid '' @ border s2
                                @ lit ''; padding: 8px; background-color: '' @ header_bg s2
                                @ lit ''; color: '' @ header_color s2 @ lit '';\">'' @ h
                                @ lit ''</th>'') ?H @
                     [lit ''  </tr></thead><tbody>''] @
                     concat (map (\<lambda>row. [lit ''    <tr>''] @
                                   map (\<lambda>cell. lit ''      <td style=\"border: 1px solid '' @ border s2
                                          @ lit ''; padding: 8px; background-color: transparent; font-weight: normal;\">''
                                          @ cell @ lit ''</td>'') row @
                                   [lit ''    </tr>'']) ?R) @
                     [lit ''  </tbody></table>'']))),
            (lit ''dimensions'',
               JObj [(lit ''columns'', JInt (int (length ?H))),
                     (lit ''rows'', JInt (int (length ?R)))])]"
    using ne by auto
  from s s2 have s2_eq: "s2 = \<lparr>header_bg = lit ''#4CAF50'', header_color = lit ''white'',
           highlight_bg = lit ''#E3F2FD'', border = lit ''#ddd''\<rparr>"
    by simp
  have "generate_table ?H ?R None (lit ''html'') (lit ''default'') (Some (- 1)) =
     Inr [(lit ''success'', JBool True),
          (lit ''type'', JStr (lit ''table'')),
          (lit ''format'', JStr (lit ''html'')),
          (lit ''title'', JNull),
          (lit ''table'', JStr (lit ''<table style=\"border-collapse: collapse; width: 100%;\">\<newline>  <thead><tr>\<newline>    <th style=\"border: 1px solid #ddd; padding: 8px; background-color: #4CAF50; color: white;\">A</th>\<newline>    <th style=\"border: 1px solid #ddd; padding: 8px; background-color: #4CAF50; color: white;\">B</th>\<newline>  </tr></thead><tbody>\<newline>    <tr>\<newline>      <td style=\"border: 1px solid #ddd; padding: 8px; background-color: transparent; font-weight: normal;\">1</td>\<newline>      <td style=\"border: 1px solid #ddd; padding: 8px; background-color: transparent; font-weight: normal;\">2</td>\<newline>    </tr>\<newline>  </tbody></table>'')),
          (lit ''dimensions'', JObj [(lit ''columns'', JInt 2), (lit ''rows'', JInt 1)])]"
    unfolding html s2_eq by (simp add: lit_def truthy_def json_of_opt_def)
  with markdown show ?thesis by (rule conjI)
qed

section \<open>UTF-8 and base64: decoding undoes encoding\<close>

lemma utf8_encode_cp_bytes: "utf8_encode_cp c = Inr b \<Longrightarrow> \<forall>x\<in>set b. x < 256"
  by (auto simp: utf8_encode_cp_def split: if_splits)

lemma utf8_encode_bytes: "utf8_encode s = Inr bs \<Longrightarrow> \<forall>x\<in>set bs. x < 256"
proof (induction s arbitrary: bs)
  case Nil
  then show ?case by simp
next
  case (Cons c cs)
  then show ?case
    using utf8_encode_cp_bytes [of c] by (fastforce split: sum.splits)
qed

lemma utf8_encode_cp_scalar: "scalar_value c \<Longrightarrow> \<exists>b. utf8_encode_cp c = Inr b"
  by (auto simp: utf8_encode_cp_def scalar_value_def)

lemma utf8_encode_valid: "valid_text s \<Longrightarrow> \<exists>bs. utf8_encode s = Inr bs"
proof (induction s)
  case Nil
  then show ?case by simp
next
  case (Cons c cs)
  then obtain b bs where "utf8_encode_cp c = Inr b" "utf8_encode cs = Inr bs"
    using utf8_encode_cp_scalar [of c] by (auto simp: valid_text_def)
  then show ?case by simp
qed

lemma utf8_encode_raises: "\<not> valid_text s \<Longrightarrow> utf8_encode s = Inl UnicodeEncodeError"
proof (induction s)
  case Nil
  then show ?case by (simp add: valid_text_def)
next
  case (Cons c cs)
  show ?case
  proof (cases "scalar_value c")
    case True
    with Cons have "utf8_encode cs = Inl UnicodeEncodeError" by (simp add: valid_text_def)
    moreover obtain b where "utf8_encode_cp c = Inr b"
      using utf8_encode_cp_scalar [OF True] by blast
    ultimately show ?thesis by simp
  next
    case False
    then have "utf8_encode_cp c = Inl UnicodeEncodeError"
      by (auto simp: utf8_encode_cp_def scalar_value_def)
    then show ?thesis by simp
  qed
qed

lemma radix3: "x = z * 64 + w \<Longrightarrow> c = x * 64 + y \<Longrightarrow> z * 4096 + w * 64 + y = (c::nat)"
  by simp

lemma radix4:
  "u = t * 64 + v \<Longrightarrow> x = u * 64 + w \<Longrightarrow> c = x * 64 + y
     \<Longrightarrow> t * 262144 + v * 4096 + w * 64 + y = (c::nat)"
  by simp

lemma join3: "(c div 4096) * 4096 + (c div 64 mod 64) * 64 + c mod 64 = (c::nat)"
proof -
  have a: "c div 4096 = (c div 64) div 64" by (simp add: div_mult2_eq)
  have e1: "c = (c div 64) * 64 + c mod 64" by simp
  have e2: "c div 64 = (c div 64 div 64) * 64 + c div 64 mod 64" by simp
  show ?thesis unfolding a by (rule radix3 [OF e2 e1])
qed

lemma join4:
  "(c div 262144) * 262144 + (c div 4096 mod 64) * 4096 + (c div 64 mod 64) * 64 + c mod 64 = (c::nat)"
proof -
  have a: "c div 262144 = (c div 64) div 64 div 64" by (simp add: div_mult2_eq)
  have b: "c div 4096 = (c div 64) div 64" by (simp add: div_mult2_eq)
  have e1: "c = (c div 64) * 64 + c mod 64" by simp
  have e2: "c div 64 = (c div 64 div 64) * 64 + c div 64 mod 64" by simp
  have e3: "c div 64 div 64 = (c div 64 div 64 div 64) * 64 + c div 64 div 64 mod 64" by simp
  show ?thesis unfolding a b by (rule radix4 [OF e3 e2 e1])
qed

lemma utf8_decode_encode_cp:
  assumes "utf8_encode_cp c = Inr b"
  shows "utf8_decode (b @ rest) =
           (case utf8_decode rest of Inl e \<Rightarrow> Inl e | Inr s \<Rightarrow> Inr (c # s))"
proof -
  consider (one) "c < 0x80" | (two) "0x80 \<le> c" "c < 0x800"
    | (three) "0x800 \<le> c" "c < 0x10000" "\<not> (0xD800 \<le> c \<and> c \<le> 0xDFFF)"
    | (four) "0x10000 \<le> c" "c < 0x110000"
    using assms by (auto simp: utf8_encode_cp_def split: if_splits)
  then show ?thesis
  proof cases
    case one
    with assms have "b = [c]" by (simp add: utf8_encode_cp_def)
    with one show ?thesis by simp
  next
    case two
    then have b: "b = [0xC0 + c div 64, 0x80 + c mod 64]"
      using assms by (simp add: utf8_encode_cp_def)
    have r: "c div 64 \<ge> 2" "c div 64 < 32" using two by auto
    show ?thesis unfolding b using r
      by (simp add: is_cont_def split: sum.split)
  next
    case three
    then have b: "b = [0xE0 + c div 4096, 0x80 + (c div 64) mod 64, 0x80 + c mod 64]"
      using assms by (auto simp: utf8_encode_cp_def split: if_splits)
    have r: "c div 4096 < 16" using three by auto
    show ?thesis unfolding b using r three
      by (simp add: is_cont_def Let_def join3 split: sum.split)
  next
    case four
    then have b: "b = [0xF0 + c div 262144, 0x80 + (c div 4096) mod 64,
                       0x80 + (c div 64) mod 64, 0x80 + c mod 64]"
      using assms by (auto simp: utf8_encode_cp_def split: if_splits)
    have r: "c div 262144 < 5" using four by auto
    show ?thesis unfolding b using r four
      by (simp add: is_cont_def Let_def join4 split: sum.split)
  qed
qed

lemma utf8_decode_encode: "utf8_encode s = Inr bs \<Longrightarrow> utf8_decode bs = Inr s"
proof (induction s arbitrary: bs)
  case Nil
  then show ?case by simp
next
  case (Cons c cs)
  then obtain b bs' where b: "utf8_encode_cp c = Inr b" and bs': "utf8_encode cs = Inr bs'"
    and bs: "bs = b @ bs'"
    by (auto split: sum.splits)
  from Cons.IH [OF bs'] utf8_decode_encode_cp [OF b, of bs'] show ?case
    by (simp add: bs)
qed

lemma utf8_decode_ascii: "\<forall>c\<in>set s. c < 128 \<Longrightarrow> utf8_decode s = Inr s"
  by (induction s) simp_all

lemma alphabet_ranges:
  "b64_alphabet = map (\<lambda>i. 65 + i) [0..<26] @ map (\<lambda>i. 97 + i) [0..<26]
                    @ map (\<lambda>i. 48 + i) [0..<10] @ [43, 47]"
  by (simp add: b64_alphabet_def lit_def upt_conv_Cons)

lemma b64_char_arith:
  "n < 64 \<Longrightarrow> b64_char n =
     (if n < 26 then 65 + n else if n < 52 then 71 + n else if n < 62 then n - 4
      else if n = 62 then 43 else 47)"
  unfolding b64_char_def alphabet_ranges
  by (auto simp: nth_append nth_Cons' simp del: upt_Suc)

lemma b64_char_value: "n < 64 \<Longrightarrow> b64_value (urlsafe_translate (b64_char n)) = Some n"
  by (auto simp: b64_char_arith b64_value_def urlsafe_translate_def)

lemma b64_char_not_pad: "n < 64 \<Longrightarrow> urlsafe_translate (b64_char n) \<noteq> 61"
  by (auto simp: b64_char_arith urlsafe_translate_def)

lemma b64_char_not_slash: "n < 64 \<Longrightarrow> urlsafe_translate (b64_char n) \<noteq> 47"
  by (auto simp: b64_char_arith urlsafe_translate_def)

lemma b64_char_ascii: "n < 64 \<Longrightarrow> urlsafe_translate (b64_char n) < 128"
  by (auto simp: b64_char_arith urlsafe_translate_def)

lemma octet1:
  fixes a b :: nat
  assumes "b < 256"
  shows "(a div 4) * 4 + ((a mod 4) * 16 + b div 16) div 16 = a"
proof -
  have "b div 16 < 16" using assms by auto
  then have "((a mod 4) * 16 + b div 16) div 16 = a mod 4" by simp
  then show ?thesis by simp
qed

lemma octet1_pad:
  fixes a :: nat
  shows "(a div 4) * 4 + ((a mod 4) * 16) div 16 = a"
  by simp

lemma octet2:
  fixes a b c :: nat
  assumes "b < 256" "c < 256"
  shows "(((a mod 4) * 16 + b div 16) mod 16) * 16 + ((b mod 16) * 4 + c div 64) div 4 = b"
proof -
  have "b div 16 < 16" using assms by auto
  then have x: "((a mod 4) * 16 + b div 16) mod 16 = b div 16" by simp
  have "c div 64 < 4" using assms by auto
  then have y: "((b mod 16) * 4 + c div 64) div 4 = b mod 16" by simp
  show ?thesis unfolding x y by simp
qed

lemma octet2_pad:
  fixes a b :: nat
  assumes "b < 256"
  shows "(((a mod 4) * 16 + b div 16) mod 16) * 16 + ((b mod 16) * 4) div 4 = b"
proof -
  have "b div 16 < 16" using assms by auto
  then have x: "((a mod 4) * 16 + b div 16) mod 16 = b div 16" by simp
  show ?thesis unfolding x by simp
qed

lemma octet3:
  fixes b c :: nat
  assumes "c < 256"
  shows "(((b mod 16) * 4 + c div 64) mod 4) * 64 + c mod 64 = c"
proof -
  have "c div 64 < 4" using assms by auto
  then have x: "((b mod 16) * 4 + c div 64) mod 4 = c div 64" by simp
  show ?thesis unfolding x by simp
qed

lemma sextets:
  fixes a b c :: nat
  assumes "a < 256" "b < 256" "c < 256"
  shows "a div 4 < 64" "(a mod 4) * 16 + b div 16 < 64" "(b mod 16) * 4 + c div 64 < 64"
    "c mod 64 < 64" "(a mod 4) * 16 < 64" "(b mod 16) * 4 < 64"
proof -
  have "a mod 4 < 4" "b mod 16 < 16" by simp_all
  moreover have "b div 16 < 16" "c div 64 < 4" "a div 4 < 64" using assms by auto
  ultimately show "a div 4 < 64" "(a mod 4) * 16 + b div 16 < 64"
    "(b mod 16) * 4 + c div 64 < 64" "c mod 64 < 64" "(a mod 4) * 16 < 64" "(b mod 16) * 4 < 64"
    by linarith+
qed

lemma decode_quad:
  assumes "b64_value c0 = Some v0" "b64_value c1 = Some v1" "b64_value c2 = Some v2"
    "b64_value c3 = Some v3" "c3 \<noteq> 61"
  shows "urlsafe_b64decode (c0 # c1 # c2 # c3 # rest) =
           (case urlsafe_b64decode rest of
              Some bs \<Rightarrow> Some ([v0 * 4 + v1 div 16, (v1 mod 16) * 16 + v2 div 4,
                                (v2 mod 4) * 64 + v3] @ bs)
            | None \<Rightarrow> None)"
  using assms by simp

lemma decode_pad1:
  assumes "b64_value c0 = Some v0" "b64_value c1 = Some v1" "b64_value c2 = Some v2"
  shows "urlsafe_b64decode [c0, c1, c2, 61] =
           (if c2 = 61 then Some [v0 * 4 + v1 div 16]
            else Some [v0 * 4 + v1 div 16, (v1 mod 16) * 16 + v2 div 4])"
  using assms by simp

lemma decode_pad2:
  assumes "b64_value c0 = Some v0" "b64_value c1 = Some v1"
  shows "urlsafe_b64decode [c0, c1, 61, 61] = Some [v0 * 4 + v1 div 16]"
  using assms by simp

lemma urlsafe_b64decode_encode:
  "\<forall>x\<in>set bs. x < 256 \<Longrightarrow> urlsafe_b64decode (urlsafe_b64encode bs) = Some bs"
proof (induction bs rule: b64encode.induct)
  case 1
  then show ?case by (simp add: urlsafe_b64encode_def)
next
  case (2 a)
  then have a: "a < 256" by simp
  have s: "a div 4 < 64" "(a mod 4) * 16 < 64" using sextets [OF a a a] by simp_all
  have "urlsafe_b64encode [a] = [urlsafe_translate (b64_char (a div 4)),
          urlsafe_translate (b64_char ((a mod 4) * 16)), 61, 61]"
    by (simp add: urlsafe_b64encode_def urlsafe_translate_def)
  then show ?case
    using decode_pad2 [OF b64_char_value [OF s(1)] b64_char_value [OF s(2)]] octet1_pad [of a]
    by simp
next
  case (3 a b)
  then have a: "a < 256" and b: "b < 256" by simp_all
  have s: "a div 4 < 64" "(a mod 4) * 16 + b div 16 < 64" "(b mod 16) * 4 < 64"
    using sextets [OF a b b] by simp_all
  have "urlsafe_b64encode [a, b] = [urlsafe_translate (b64_char (a div 4)),
          urlsafe_translate (b64_char ((a mod 4) * 16 + b div 16)),
          urlsafe_translate (b64_char ((b mod 16) * 4)), 61]"
    by (simp add: urlsafe_b64encode_def urlsafe_translate_def)
  then show ?case
    using decode_pad1 [OF b64_char_value [OF s(1)] b64_char_value [OF s(2)] b64_char_value [OF s(3)]]
      octet1 [OF b, of a] octet2_pad [OF b, of a] b64_char_not_pad [OF s(3)]
    by simp
next
  case (4 a b c rest)
  then have a: "a < 256" and b: "b < 256" and c: "c < 256"
    and rest: "\<forall>x\<in>set rest. x < 256" by simp_all
  have s: "a div 4 < 64" "(a mod 4) * 16 + b div 16 < 64" "(b mod 16) * 4 + c div 64 < 64"
    "c mod 64 < 64"
    using sextets [OF a b c] by simp_all
  have ih: "urlsafe_b64decode (urlsafe_b64encode rest) = Some rest"
    using "4.IH" [OF rest] .
  have e: "urlsafe_b64encode (a # b # c # rest) =
          urlsafe_translate (b64_char (a div 4)) #
          urlsafe_translate (b64_char ((a mod 4) * 16 + b div 16)) #
          urlsafe_translate (b64_char ((b mod 16) * 4 + c div 64)) #
          urlsafe_translate (b64_char (c mod 64)) # urlsafe_b64encode rest"
    by (simp add: urlsafe_b64encode_def)
  show ?case
    unfolding e
    using decode_quad [OF b64_char_value [OF s(1)] b64_char_value [OF s(2)]
        b64_char_value [OF s(3)] b64_char_value [OF s(4)] b64_char_not_pad [OF s(4)],
        of "urlsafe_b64encode rest"]
      octet1 [OF b, of a] octet2 [OF b c, of a] octet3 [OF c, of b]
    by (simp add: ih)
qed

lemma urlsafe_b64encode_chars:
  "\<forall>x\<in>set bs. x < 256 \<Longrightarrow> \<forall>c\<in>set (urlsafe_b64encode bs). c < 128 \<and> c \<noteq> 47"
proof (induction bs rule: b64encode.induct)
  case 1
  then show ?case by (simp add: urlsafe_b64encode_def)
next
  case (2 a)
  then have a: "a < 256" by simp
  have s: "a div 4 < 64" "(a mod 4) * 16 < 64" using sextets [OF a a a] by simp_all
  show ?case
    using s [THEN b64_char_ascii] s [THEN b64_char_not_slash]
    by (simp add: urlsafe_b64encode_def urlsafe_translate_def [of 61])
next
  case (3 a b)
  then have a: "a < 256" and b: "b < 256" by simp_all
  have s: "a div 4 < 64" "(a mod 4) * 16 + b div 16 < 64" "(b mod 16) * 4 < 64"
    using sextets [OF a b b] by simp_all
  show ?case
    using s [THEN b64_char_ascii] s [THEN b64_char_not_slash]
    by (simp add: urlsafe_b64encode_def urlsafe_translate_def [of 61])
next
  case (4 a b c rest)
  then have a: "a < 256" and b: "b < 256" and c: "c < 256"
    and rest: "\<forall>x\<in>set rest. x < 256" by simp_all
  have s: "a div 4 < 64" "(a mod 4) * 16 + b div 16 < 64" "(b mod 16) * 4 + c div 64 < 64"
    "c mod 64 < 64"
    using sextets [OF a b c] by simp_all
  show ?case
    using s [THEN b64_char_ascii] s [THEN b64_char_not_slash] "4.IH" [OF rest]
    by (simp add: urlsafe_b64encode_def)
qed

lemma last_segment_append:
  assumes "47 \<notin> set seg"
  shows "last_segment (base @ lit ''/img/'' @ seg) = seg"
proof -
  have "rev (base @ lit ''/img/'' @ seg) = rev seg @ (47 # rev (base @ lit ''/img''))"
    by (simp add: lit_def)
  moreover have "takeWhile (\<lambda>c. c \<noteq> 47) (rev seg @ (47 # rev (base @ lit ''/img''))) = rev seg"
    using assms by (simp add: takeWhile_append)
  ultimately show ?thesis by (simp add: last_segment_def)
qed

section \<open>The diagram renderer: payload and reachability\<close>

lemma valid_text_append [simp]: "valid_text (a @ b) = (valid_text a \<and> valid_text b)"
  by (simp add: valid_text_def)

lemma valid_text_Cons [simp]: "valid_text (c # s) = (scalar_value c \<and> valid_text s)"
  by (simp add: valid_text_def)

lemma valid_text_Nil [simp]: "valid_text []"
  by (simp add: valid_text_def)

lemma scalar_value_ascii: "c < 128 \<Longrightarrow> scalar_value c"
  by (simp add: scalar_value_def)

lemma valid_text_lit: "valid_text (lit s)"
proof -
  have "of_char c < (256::nat)" for c :: char
  proof -
    have "(of_char c :: nat) = of_char c mod 256" by simp
    also have "\<dots> < 256" by (rule mod_less_divisor) simp
    finally show ?thesis .
  qed
  then have "scalar_value (of_char c)" for c :: char
    using less_trans [of "of_char c :: nat" 256 "0xD800"] by (auto simp: scalar_value_def)
  then show ?thesis by (simp add: valid_text_def lit_def list_all_iff)
qed

lemma valid_text_theme_directive: "valid_text theme \<Longrightarrow> valid_text (theme_directive theme)"
  by (simp add: theme_directive_def valid_text_lit scalar_value_def)

lemma valid_text_join:
  "valid_text sep \<Longrightarrow> list_all valid_text xs \<Longrightarrow> valid_text (str_join sep xs)"
  by (induction sep xs rule: str_join.induct) simp_all

text \<open>
  On valid text \<open>encode_mermaid\<close> returns a string without \<open>/\<close> from which the
  reader gets the text back.
\<close>

lemma encode_mermaid_valid:
  assumes "valid_text s"
  shows "\<exists>enc. encode_mermaid s = Inr enc \<and> 47 \<notin> set enc \<and> decode_payload enc = Some s"
proof -
  obtain bs where bs: "utf8_encode s = Inr bs"
    using utf8_encode_valid [OF assms] by blast
  have bytes: "\<forall>x\<in>set bs. x < 256" by (rule utf8_encode_bytes [OF bs])
  let ?enc = "urlsafe_b64encode bs"
  have chars: "\<forall>c\<in>set ?enc. c < 128 \<and> c \<noteq> 47"
    by (rule urlsafe_b64encode_chars [OF bytes])
  then have "utf8_decode ?enc = Inr ?enc"
    by (intro utf8_decode_ascii) simp
  then have "encode_mermaid s = Inr ?enc"
    by (simp add: encode_mermaid_def bs)
  moreover have "47 \<notin> set ?enc" using chars by blast
  moreover have "decode_payload ?enc = Some s"
    by (simp add: decode_payload_def urlsafe_b64decode_encode [OF bytes]
          utf8_decode_encode [OF bs])
  ultimately show ?thesis by blast
qed

lemma encode_mermaid_invalid: "\<not> valid_text s \<Longrightarrow> encode_mermaid s = Inl UnicodeEncodeError"
  by (simp add: encode_mermaid_def utf8_encode_raises)

lemma draw_logic_flow_encoded:
  assumes "encode_mermaid (theme_directive theme @ lit ''\<newline>'' @ diagram_code) = Inr enc"
  shows "draw_logic_flow cfg head diagram_code diagram_type theme title =
     Inr [(lit ''success'', JBool True),
          (lit ''type'', JStr (lit ''diagram'')),
          (lit ''diagram_type'', JStr diagram_type),
          (lit ''title'', json_of_opt title),
          (lit ''image_url'', JStr (MERMAID_BASE_URL cfg @ lit ''/img/'' @ enc)),
          (lit ''edit_url'', JStr (MERMAID_LIVE_URL cfg @ lit ''/edit#base64:'' @ enc)),
          (lit ''accessible'',
             JBool (head (MERMAID_BASE_URL cfg @ lit ''/img/'' @ enc) = Response 200)),
          (lit ''theme'', JStr theme)]"
  using assms by (simp add: draw_logic_flow_def Let_def split: probe.split)

lemma result_keys:
  "map_of [(lit ''success'', a), (lit ''type'', b), (lit ''diagram_type'', c), (lit ''title'', d),
           (lit ''image_url'', e), (lit ''edit_url'', f), (lit ''accessible'', g),
           (lit ''theme'', h)] (lit ''image_url'') = Some e"
  "map_of [(lit ''success'', a), (lit ''type'', b), (lit ''diagram_type'', c), (lit ''title'', d),
           (lit ''image_url'', e), (lit ''edit_url'', f), (lit ''accessible'', g),
           (lit ''theme'', h)] (lit ''success'') = Some a"
  "map_of [(lit ''success'', a), (lit ''type'', b), (lit ''diagram_type'', c), (lit ''title'', d),
           (lit ''image_url'', e), (lit ''edit_url'', f), (lit ''accessible'', g),
           (lit ''theme'', h)] (lit ''accessible'') = Some g"
  "map_of [(lit ''success'', a), (lit ''type'', b), (lit ''diagram_type'', c), (lit ''title'', d),
           (lit ''image_url'', e), (lit ''edit_url'', f), (lit ''accessible'', g),
           (lit ''theme'', h)] (lit ''error'') = None"
  by (simp_all add: lit_def)



text \<open>
  C7. For every diagram request (theme and markup being text) and whatever the probe
  does, the call returns a result with \<open>success\<close> true and no \<open>error\<close> key;
  \<open>accessible\<close> is true exactly when the probe of the image URL answered with status
  200, so a raised exception (network error, timeout) or another status gives false.
\<close>

theorem draw_logic_flow_success:
  assumes "valid_text theme" and "valid_text diagram_code"
  shows "\<exists>res url.
     draw_logic_flow cfg head diagram_code diagram_type theme title = Inr res \<and>
     map_of res (lit ''success'') = Some (JBool True) \<and>
     map_of res (lit ''error'') = None \<and>
     map_of res (lit ''image_url'') = Some (JStr url) \<and>
     map_of res (lit ''accessible'') = Some (JBool (head url = Response 200))"
proof -
  let ?themed = "theme_directive theme @ lit ''\<newline>'' @ diagram_code"
  have "valid_text ?themed"
    using assms by (simp add: valid_text_theme_directive valid_text_lit)
  then obtain enc where enc: "encode_mermaid ?themed = Inr enc"
    using encode_mermaid_valid by blast
  define url where "url = MERMAID_BASE_URL cfg @ lit ''/img/'' @ enc"
  define res where "res =
         [(lit ''success'', JBool True),
          (lit ''type'', JStr (lit ''diagram'')),
          (lit ''diagram_type'', JStr diagram_type),
          (lit ''title'', json_of_opt title),
          (lit ''image_url'', JStr url),
          (lit ''edit_url'', JStr (MERMAID_LIVE_URL cfg @ lit ''/edit#base64:'' @ enc)),
          (lit ''accessible'', JBool (head url = Response 200)),
          (lit ''theme'', JStr theme)]"
  have "draw_logic_flow cfg head diagram_code diagram_type theme title = Inr res"
    unfolding res_def url_def by (rule draw_logic_flow_encoded [OF enc])
  moreover have "map_of res (lit ''success'') = Some (JBool True)"
    and "map_of res (lit ''error'') = None"
    and "map_of res (lit ''image_url'') = Some (JStr url)"
    and "map_of res (lit ''accessible'') = Some (JBool (head url = Response 200))"
    unfolding res_def by (rule result_keys)+
  ultimately show ?thesis by blast
qed

theorem draw_logic_flow_success_witness:
  "\<exists>res url.
     draw_logic_flow default_Config (\<lambda>u. Raised) (lit ''graph TD; A-->B'') (lit ''flowchart'')
       (lit ''default'') None = Inr res \<and>
     map_of res (lit ''success'') = Some (JBool True) \<and>
     map_of res (lit ''error'') = None \<and>
     map_of res (lit ''image_url'') = Some (JStr url) \<and>
     map_of res (lit ''accessible'') = Some (JBool False)"
  using draw_logic_flow_success [OF valid_text_lit valid_text_lit,
      where cfg = default_Config and head = "\<lambda>u. Raised"]
  by simp

section \<open>The mindmap outline\<close>

lemma mindmap_lines_eq:
  "mindmap_lines theme central_topic branches =
     [theme_directive theme, lit ''mindmap'', lit ''  root(('' @ central_topic @ lit ''))''] @
     concat (map (\<lambda>b. (lit ''    '' @ (case bname b of Some n \<Rightarrow> n | None \<Rightarrow> [])) #
                map (\<lambda>child. lit ''      '' @ child)
                  (case bchildren b of Some cs \<Rightarrow> cs | None \<Rightarrow> [])) branches)"
proof -
  have "foldl (\<lambda>lines branch.
              let branch_name = (case bname branch of Some n \<Rightarrow> n | None \<Rightarrow> []);
                  children = (case bchildren branch of Some cs \<Rightarrow> cs | None \<Rightarrow> []);
                  lines' = lines @ [lit ''    '' @ branch_name]
              in foldl (\<lambda>lines child. lines @ [lit ''      '' @ child]) lines' children) acc bs
     = acc @ concat (map (\<lambda>b. (lit ''    '' @ (case bname b of Some n \<Rightarrow> n | None \<Rightarrow> [])) #
                map (\<lambda>child. lit ''      '' @ child)
                  (case bchildren b of Some cs \<Rightarrow> cs | None \<Rightarrow> [])) bs)"
    for acc and bs :: "branch list"
    by (induction bs arbitrary: acc) (simp_all add: Let_def foldl_append_map)
  then show ?thesis by (simp add: mindmap_lines_def)
qed

lemma valid_branch_lines:
  assumes "valid_branch b"
  shows "list_all valid_text ((lit ''    '' @ (case bname b of Some n \<Rightarrow> n | None \<Rightarrow> [])) #
                map (\<lambda>child. lit ''      '' @ child)
                  (case bchildren b of Some cs \<Rightarrow> cs | None \<Rightarrow> []))"
  using assms
  by (auto simp: valid_branch_def valid_text_lit list_all_iff split: option.splits)

lemma valid_mindmap_lines:
  assumes "valid_text theme" "valid_text central_topic" "list_all valid_branch branches"
  shows "list_all valid_text (mindmap_lines theme central_topic branches)"
proof -
  have "list_all valid_text (concat (map (\<lambda>b. (lit ''    '' @ (case bname b of Some n \<Rightarrow> n | None \<Rightarrow> [])) #
                map (\<lambda>child. lit ''      '' @ child)
                  (case bchildren b of Some cs \<Rightarrow> cs | None \<Rightarrow> [])) branches))"
    using assms(3) valid_branch_lines by (fastforce simp: list_all_iff)
  then show ?thesis
    using assms(1,2)
    by (simp add: mindmap_lines_eq valid_text_theme_directive valid_text_lit)
qed

lemma mindmap_result_keys:
  "map_of [(lit ''success'', a), (lit ''type'', b), (lit ''title'', c), (lit ''image_url'', d),
           (lit ''edit_url'', e), (lit ''theme'', f), (lit ''branch_count'', g)]
     (lit ''image_url'') = Some d"
  "map_of [(lit ''success'', a), (lit ''type'', b), (lit ''title'', c), (lit ''image_url'', d),
           (lit ''edit_url'', e), (lit ''theme'', f), (lit ''branch_count'', g)]
     (lit ''edit_url'') = Some e"
  by (simp_all add: lit_def)

text \<open>
  C8. The text encoded into both URLs of a mindmap is the lines joined by newlines:
  the theme directive, \<open>mindmap\<close>, the root line, and for each branch in input order
  one line indented by four spaces followed by one line indented by six spaces per
  child, in input order. For the topic \<open>Root\<close> with the one branch \<open>B1\<close> and the
  children \<open>c1\<close>, \<open>c2\<close> the lines are the six of the specification.
\<close>

theorem render_mindmap_outline:
  assumes "valid_text theme" and "valid_text central_topic"
    and "list_all valid_branch branches"
  shows "(\<exists>res url.
      render_mindmap cfg central_topic branches theme title = Inr res \<and>
      map_of res (lit ''image_url'') = Some (JStr url) \<and>
      map_of res (lit ''edit_url'') =
        Some (JStr (MERMAID_LIVE_URL cfg @ lit ''/edit#base64:'' @ last_segment url)) \<and>
      decode_payload (last_segment url) =
        Some (str_join (lit ''\<newline>'')
          ([theme_directive theme, lit ''mindmap'', lit ''  root(('' @ central_topic @ lit ''))''] @
           concat (map (\<lambda>b. (lit ''    '' @ (case bname b of Some n \<Rightarrow> n | None \<Rightarrow> [])) #
                      map (\<lambda>child. lit ''      '' @ child)
                        (case bchildren b of Some cs \<Rightarrow> cs | None \<Rightarrow> [])) branches)))) \<and>
    mindmap_lines theme (lit ''Root'')
        [\<lparr>bname = Some (lit ''B1''), bchildren = Some [lit ''c1'', lit ''c2'']\<rparr>] =
      [theme_directive theme, lit ''mindmap'', lit ''  root((Root))'',
       lit ''    B1'', lit ''      c1'', lit ''      c2'']"
proof
  let ?text = "str_join (lit ''\<newline>'') (mindmap_lines theme central_topic branches)"
  have "valid_text ?text"
    by (intro valid_text_join valid_text_lit valid_mindmap_lines assms)
  then obtain enc where enc: "encode_mermaid ?text = Inr enc" and slash: "47 \<notin> set enc"
    and dec: "decode_payload enc = Some ?text"
    using encode_mermaid_valid by blast
  define url where "url = MERMAID_BASE_URL cfg @ lit ''/img/'' @ enc"
  define res where "res =
         [(lit ''success'', JBool True),
          (lit ''type'', JStr (lit ''mindmap'')),
          (lit ''title'', JStr (if truthy title then the title else central_topic)),
          (lit ''image_url'', JStr url),
          (lit ''edit_url'', JStr (MERMAID_LIVE_URL cfg @ lit ''/edit#base64:'' @ enc)),
          (lit ''theme'', JStr theme),
          (lit ''branch_count'', JInt (int (length branches)))]"
  have seg: "last_segment url = enc"
    unfolding url_def by (rule last_segment_append [OF slash])
  have "render_mindmap cfg central_topic branches theme title = Inr res"
    unfolding res_def url_def by (simp add: render_mindmap_def enc)
  moreover have "map_of res (lit ''image_url'') = Some (JStr url)"
    unfolding res_def by (rule mindmap_result_keys)
  moreover have "map_of res (lit ''edit_url'') =
      Some (JStr (MERMAID_LIVE_URL cfg @ lit ''/edit#base64:'' @ last_segment url))"
    unfolding seg unfolding res_def by (rule mindmap_result_keys)
  moreover have "decode_payload (last_segment url) = Some ?text"
    unfolding seg by (rule dec)
  ultimately show "\<exists>res url.
      render_mindmap cfg central_topic branches theme title = Inr res \<and>
      map_of res (lit ''image_url'') = Some (JStr url) \<and>
      map_of res (lit ''edit_url'') =
        Some (JStr (MERMAID_LIVE_URL cfg @ lit ''/edit#base64:'' @ last_segment url)) \<and>
      decode_payload (last_segment url) =
        Some (str_join (lit ''\<newline>'')
          ([theme_directive theme, lit ''mindmap'', lit ''  root(('' @ central_topic @ lit ''))''] @
           concat (map (\<lambda>b. (lit ''    '' @ (case bname b of Some n \<Rightarrow> n | None \<Rightarrow> [])) #
                      map (\<lambda>child. lit ''      '' @ child)
                        (case bchildren b of Some cs \<Rightarrow> cs | None \<Rightarrow> [])) branches)))"
    unfolding mindmap_lines_eq by blast
next
  show "mindmap_lines theme (lit ''Root'')
        [\<lparr>bname = Some (lit ''B1''), bchildren = Some [lit ''c1'', lit ''c2'']\<rparr>] =
      [theme_directive theme, lit ''mindmap'', lit ''  root((Root))'',
       lit ''    B1'', lit ''      c1'', lit ''      c2'']"
    by (simp add: mindmap_lines_eq lit_def)
qed

theorem render_mindmap_outline_witness:
  "\<exists>res url.
      render_mindmap default_Config (lit ''Root'')
        [\<lparr>bname = Some (lit ''B1''), bchildren = Some [lit ''c1'', lit ''c2'']\<rparr>]
        (lit ''default'') None = Inr res \<and>
      map_of res (lit ''image_url'') = Some (JStr url) \<and>
      decode_payload (last_segment url) =
        Some (lit ''%%{init: {'theme': 'default'}}%%\<newline>mindmap\<newline>  root((Root))\<newline>    B1\<newline>      c1\<newline>      c2'')"
proof -
  have b: "list_all valid_branch
             [\<lparr>bname = Some (lit ''B1''), bchildren = Some [lit ''c1'', lit ''c2'']\<rparr>]"
    by (simp add: valid_branch_def valid_text_lit)
  have t: "str_join (lit ''\<newline>'')
          ([theme_directive (lit ''default''), lit ''mindmap'',
            lit ''  root(('' @ lit ''Root'' @ lit ''))''] @
           concat (map (\<lambda>b. (lit ''    '' @ (case bname b of Some n \<Rightarrow> n | None \<Rightarrow> [])) #
                      map (\<lambda>child. lit ''      '' @ child)
                        (case bchildren b of Some cs \<Rightarrow> cs | None \<Rightarrow> []))
              [\<lparr>bname = Some (lit ''B1''), bchildren = Some [lit ''c1'', lit ''c2'']\<rparr>]))
     = lit ''%%{init: {'theme': 'default'}}%%\<newline>mindmap\<newline>  root((Root))\<newline>    B1\<newline>      c1\<newline>      c2''"
    by (simp add: theme_directive_def lit_def)
  from render_mindmap_outline [OF valid_text_lit [of "''default''"] valid_text_lit [of "''Root''"] b,
        where cfg = default_Config and title = None]
  obtain res url where r: "render_mindmap default_Config (lit ''Root'')
        [\<lparr>bname = Some (lit ''B1''), bchildren = Some [lit ''c1'', lit ''c2'']\<rparr>]
        (lit ''default'') None = Inr res"
      "map_of res (lit ''image_url'') = Some (JStr url)"
      "decode_payload (last_segment url) =
        Some (lit ''%%{init: {'theme': 'default'}}%%\<newline>mindmap\<newline>  root((Root))\<newline>    B1\<newline>      c1\<newline>      c2'')"
    unfolding t by blast
  then show ?thesis by blast
qed

section \<open>A chart request evaluated\<close>

lemmas eval_defs =
  lit_def dict_index_def dict_get_def dict_contains_def dict_set_def
  CHART_THEMES_def COLOR_PALETTES_def get_chart_theme_def get_color_palette_def
  chart_config_def truthy_def json_of_opt_def json_string_def json_escape_char_def
  json_float_def urlencode_def quote_plus_def quote_byte_def always_safe_def HEX_digit_def
  str_of_param_def str_of_int_def utf8_encode_cp_def hex4_def hex_digit_def

lemma str_of_nat_500: "str_of_nat 500 = [53, 48, 48]"
  by (simp add: str_of_nat.simps)

lemma str_of_nat_300: "str_of_nat 300 = [51, 48, 48]"
  by (simp add: str_of_nat.simps)

lemma empty_pie_chart:
  "plot_data_chart cfg (lit ''pie'') [] [] None (lit ''light'') (lit ''default'') None None =
     (if QUICKCHART_MAX_URL_LENGTH cfg < int (length (QUICKCHART_URL cfg)) + 311
      then Inr [(lit ''success'', JBool False),
                (lit ''error'', JStr (lit ''Chart data too large. Reduce data points.''))]
      else Inr [(lit ''success'', JBool True),
                (lit ''type'', JStr (lit ''chart'')),
                (lit ''chart_type'', JStr (lit ''pie'')),
                (lit ''title'', JNull),
                (lit ''image_url'', JStr (QUICKCHART_URL cfg @ lit ''?c=%7B%22type%22%3A+%22pie%22%2C+%22data%22%3A+%7B%22labels%22%3A+%5B%5D%2C+%22datasets%22%3A+%5B%5D%7D%2C+%22options%22%3A+%7B%22responsive%22%3A+false%2C+%22plugins%22%3A+%7B%22legend%22%3A+%7B%22labels%22%3A+%7B%22color%22%3A+%22%23333333%22%7D%7D%7D%2C+%22scales%22%3A+%7B%7D%7D%7D&w=500&h=300&bkg=%23ffffff'')),
                (lit ''theme'', JStr (lit ''light'')),
                (lit ''dimensions'', JObj [(lit ''width'', JInt 500), (lit ''height'', JInt 300)])],
      [])"
  by (simp add: plot_data_chart_def eval_defs str_of_nat_500 str_of_nat_300 Let_def)

section \<open>Colour assignment\<close>

lemma map_of_dict_set:
  "map_of (dict_set d k v) k' = (if k' = k then Some v else map_of d k')"
proof (cases "dict_contains d k")
  case True
  have "map_of (map (\<lambda>(k', v'). if k' = k then (k', v) else (k', v')) d) k'
          = (if k' = k then (case map_of d k of Some _ \<Rightarrow> Some v | None \<Rightarrow> None) else map_of d k')"
    by (induction d) auto
  with True show ?thesis by (auto simp: dict_set_def dict_contains_def)
next
  case False
  then show ?thesis
    by (auto simp: dict_set_def dict_contains_def map_add_def split: option.splits)
qed

lemma dict_set_absent: "\<not> dict_contains d k \<Longrightarrow> dict_set d k v = d @ [(k, v)]"
  by (simp add: dict_set_def)

lemma key_neq: "lit ''backgroundColor'' \<noteq> lit ''borderColor''"
  by (simp add: lit_def)

text \<open>What the loop body does to one dataset, case by case.\<close>

lemma assign_dataset_both:
  "dict_contains ds (lit ''backgroundColor'') \<Longrightarrow> dict_contains ds (lit ''borderColor'')
     \<Longrightarrow> assign_dataset colors i ds = (None, ds)"
  by (simp add: assign_dataset_def)

lemma assign_dataset_neither:
  assumes "\<not> dict_contains ds (lit ''backgroundColor'')" "\<not> dict_contains ds (lit ''borderColor'')"
    and "colors \<noteq> []"
  shows "assign_dataset colors i ds =
     (None, ds @ [(lit ''backgroundColor'', JStr (colors ! (i mod length colors))),
                  (lit ''borderColor'',
                     JStr (str_replace (str_replace (colors ! (i mod length colors))
                             (lit ''0.7'') (lit ''1'')) (lit ''0.8'') (lit ''1'')))])"
proof -
  let ?ds1 = "dict_set ds (lit ''backgroundColor'') (JStr (colors ! (i mod length colors)))"
  have c: "\<not> dict_contains ?ds1 (lit ''borderColor'')"
    using assms(2) key_neq by (simp add: dict_contains_def map_of_dict_set)
  have m: "map_of ?ds1 (lit ''backgroundColor'') = Some (JStr (colors ! (i mod length colors)))"
    by (simp add: map_of_dict_set)
  show ?thesis
    using assms c m
    by (simp add: assign_dataset_def Let_def dict_set_absent)
qed

lemma assign_dataset_keeps:
  "map_of ds k = Some v \<Longrightarrow> map_of (snd (assign_dataset colors i ds)) k = Some v"
  by (auto simp: assign_dataset_def Let_def map_of_dict_set dict_contains_def
      split: option.splits json.splits)

lemma assign_dataset_adds:
  "map_of (snd (assign_dataset colors i ds)) k = Some v
     \<Longrightarrow> map_of ds k = Some v \<or> k = lit ''backgroundColor'' \<or> k = lit ''borderColor''"
  by (auto simp: assign_dataset_def Let_def map_of_dict_set dict_contains_def
      split: option.splits json.splits if_splits)

lemma assign_dataset_other_keys:
  "k \<noteq> lit ''backgroundColor'' \<Longrightarrow> k \<noteq> lit ''borderColor''
     \<Longrightarrow> map_of (snd (assign_dataset colors i ds)) k = map_of ds k"
  by (auto simp: assign_dataset_def Let_def map_of_dict_set split: option.splits json.splits)

lemma assign_dataset_background:
  "colors \<noteq> [] \<Longrightarrow> map_of ds (lit ''backgroundColor'') = None
     \<Longrightarrow> map_of (snd (assign_dataset colors i ds)) (lit ''backgroundColor'')
           = Some (JStr (colors ! (i mod length colors)))"
  using key_neq
  by (auto simp: assign_dataset_def Let_def map_of_dict_set dict_contains_def
      split: option.splits json.splits)

lemma assign_dataset_border:
  "colors \<noteq> [] \<Longrightarrow> map_of ds (lit ''borderColor'') = None \<Longrightarrow> colorable ds
     \<Longrightarrow> \<exists>bg. map_of (snd (assign_dataset colors i ds)) (lit ''backgroundColor'') = Some (JStr bg) \<and>
              map_of (snd (assign_dataset colors i ds)) (lit ''borderColor'')
                = Some (JStr (str_replace (str_replace bg (lit ''0.7'') (lit ''1''))
                                (lit ''0.8'') (lit ''1'')))"
  using key_neq
  by (auto simp: assign_dataset_def Let_def map_of_dict_set dict_contains_def colorable_def
      split: option.splits json.splits)

lemma assign_dataset_colorable:
  "colorable ds \<Longrightarrow> colors \<noteq> [] \<Longrightarrow> fst (assign_dataset colors i ds) = None"
  by (auto simp: assign_dataset_def Let_def map_of_dict_set dict_contains_def colorable_def
      split: option.splits json.splits)

lemma assign_colors_length: "length (snd (assign_colors colors k dss)) = length dss"
proof (induction dss arbitrary: k)
  case Nil
  then show ?case by simp
next
  case (Cons ds rest)
  from Cons [of "Suc k"] show ?case
    by (auto split: prod.splits option.splits)
qed

lemma assign_colors_frame:
  "i < length dss \<Longrightarrow>
   snd (assign_colors colors k dss) ! i = dss ! i \<or>
   snd (assign_colors colors k dss) ! i = snd (assign_dataset colors (k + i) (dss ! i))"
proof (induction dss arbitrary: k i)
  case Nil
  then show ?case by simp
next
  case (Cons ds rest)
  show ?case
  proof (cases i)
    case 0
    then show ?thesis by (auto split: prod.splits option.splits)
  next
    case (Suc i')
    with Cons.prems have "i' < length rest" by simp
    from Cons.IH [OF this, of "Suc k"] Suc show ?thesis
      by (auto split: prod.splits option.splits)
  qed
qed

lemma assign_colors_reaches:
  "i < length dss \<Longrightarrow> list_all colorable (take i dss) \<Longrightarrow> colors \<noteq> [] \<Longrightarrow>
   snd (assign_colors colors k dss) ! i = snd (assign_dataset colors (k + i) (dss ! i))"
proof (induction dss arbitrary: k i)
  case Nil
  then show ?case by simp
next
  case (Cons ds rest)
  show ?case
  proof (cases i)
    case 0
    then show ?thesis by (auto split: prod.splits option.splits)
  next
    case (Suc i')
    with Cons.prems have i': "i' < length rest" and c: "colorable ds"
      and r: "list_all colorable (take i' rest)" by simp_all
    have "fst (assign_dataset colors k ds) = None"
      by (rule assign_dataset_colorable [OF c Cons.prems(3)])
    with Cons.IH [OF i' r Cons.prems(3), of "Suc k"] Suc show ?thesis
      by (auto split: prod.splits option.splits)
  qed
qed

lemma assign_colors_completes:
  "list_all colorable dss \<Longrightarrow> colors \<noteq> [] \<Longrightarrow> fst (assign_colors colors k dss) = None"
proof (induction dss arbitrary: k)
  case Nil
  then show ?case by simp
next
  case (Cons ds rest)
  then have "fst (assign_dataset colors k ds) = None" "fst (assign_colors colors (Suc k) rest) = None"
    by (simp_all add: assign_dataset_colorable)
  then show ?case by (auto split: prod.splits option.splits)
qed

lemma palettes_nonempty:
  "get_color_palette color_palette = Inr colors \<Longrightarrow> length colors = 6"
  by (auto simp: get_color_palette_def dict_index_def dict_get_def COLOR_PALETTES_def lit_def
      split: if_splits)

lemma plot_data_chart_datasets:
  "\<exists>colors. get_color_palette color_palette = Inr colors \<and>
     snd (plot_data_chart cfg chart_type labels datasets title theme color_palette width_arg height_arg)
       = snd (assign_colors colors 0 datasets)"
proof -
  obtain tc where tc: "get_chart_theme theme = Inr tc"
    by (auto simp: get_chart_theme_def dict_index_def CHART_THEMES_def lit_def)
  obtain colors where colors: "get_color_palette color_palette = Inr colors"
    by (auto simp: get_color_palette_def dict_index_def COLOR_PALETTES_def lit_def)
  have "snd (plot_data_chart cfg chart_type labels datasets title theme color_palette width_arg height_arg)
       = snd (assign_colors colors 0 datasets)"
    by (simp add: plot_data_chart_def tc colors Let_def split: prod.splits option.splits sum.splits)
  with colors show ?thesis by blast
qed

lemma palette_alpha:
  assumes "get_color_palette color_palette = Inr colors" and "c \<in> set colors"
  shows "str_replace (str_replace c (lit ''0.7'') (lit ''1'')) (lit ''0.8'') (lit ''1'')
           = with_alpha_one c"
proof -
  have "\<forall>p\<in>snd ` set COLOR_PALETTES. \<forall>c\<in>set p.
          str_replace (str_replace c (lit ''0.7'') (lit ''1'')) (lit ''0.8'') (lit ''1'')
            = with_alpha_one c"
    by (simp add: COLOR_PALETTES_def lit_def str_replace_def with_alpha_one_def)
  moreover have "colors \<in> snd ` set COLOR_PALETTES"
    using assms(1)
    by (auto simp: get_color_palette_def dict_index_def dict_get_def COLOR_PALETTES_def lit_def
        split: if_splits)
  ultimately show ?thesis using assms(2) by blast
qed

section \<open>What the chart plotter does to the datasets\<close>

text \<open>
  Where the loop reaches a dataset \<open>i\<close> (no earlier dataset makes it raise) that has
  neither \<open>backgroundColor\<close> nor \<open>borderColor\<close>, the dataset gets as fill colour the
  entry \<open>i mod len(palette)\<close> of the palette that the lookup returns for the given
  name, and as border colour that fill colour with its trailing alpha token replaced
  by \<open>1\<close>.
\<close>

lemma default_colors_assigned:
  assumes "i < length datasets" and "list_all colorable (take i datasets)"
    and "\<not> dict_contains (datasets ! i) (lit ''backgroundColor'')"
    and "\<not> dict_contains (datasets ! i) (lit ''borderColor'')"
  shows "\<exists>palette datasets'.
     get_color_palette color_palette = Inr palette \<and> palette \<noteq> [] \<and>
     datasets' = snd (plot_data_chart cfg chart_type labels datasets title theme color_palette
                        width_arg height_arg) \<and>
     map_of (datasets' ! i) (lit ''backgroundColor'')
       = Some (JStr (palette ! (i mod length palette))) \<and>
     map_of (datasets' ! i) (lit ''borderColor'')
       = Some (JStr (with_alpha_one (palette ! (i mod length palette))))"
proof -
  obtain colors where colors: "get_color_palette color_palette = Inr colors"
    and state: "snd (plot_data_chart cfg chart_type labels datasets title theme color_palette
                  width_arg height_arg) = snd (assign_colors colors 0 datasets)"
    using plot_data_chart_datasets by blast
  have len: "length colors = 6" by (rule palettes_nonempty [OF colors])
  then have ne: "colors \<noteq> []" by auto
  let ?fill = "colors ! (i mod length colors)"
  have "?fill \<in> set colors" using len by simp
  then have alpha: "str_replace (str_replace ?fill (lit ''0.7'') (lit ''1'')) (lit ''0.8'') (lit ''1'')
                      = with_alpha_one ?fill"
    by (rule palette_alpha [OF colors])
  have "snd (assign_colors colors 0 datasets) ! i = snd (assign_dataset colors (0 + i) (datasets ! i))"
    by (rule assign_colors_reaches [OF assms(1,2) ne])
  also have "\<dots> = datasets ! i @ [(lit ''backgroundColor'', JStr ?fill),
                                    (lit ''borderColor'', JStr (with_alpha_one ?fill))]"
    by (simp add: assign_dataset_neither [OF assms(3,4) ne] alpha)
  finally have nth: "snd (assign_colors colors 0 datasets) ! i =
      datasets ! i @ [(lit ''backgroundColor'', JStr ?fill),
                      (lit ''borderColor'', JStr (with_alpha_one ?fill))]" .
  have none: "map_of (datasets ! i) (lit ''backgroundColor'') = None"
    "map_of (datasets ! i) (lit ''borderColor'') = None"
    using assms(3,4) by (simp_all add: dict_contains_def)
  have "map_of (snd (assign_colors colors 0 datasets) ! i) (lit ''backgroundColor'') = Some (JStr ?fill)"
    unfolding nth using none key_neq by (simp add: map_add_def)
  moreover have "map_of (snd (assign_colors colors 0 datasets) ! i) (lit ''borderColor'')
      = Some (JStr (with_alpha_one ?fill))"
    unfolding nth using none key_neq by (simp add: map_add_def)
  ultimately show ?thesis using colors ne state by auto
qed

text \<open>
  C3, as the code has it. The call stores into the caller's dataset dicts. It never
  changes or removes a field that a dataset has, every key other than
  \<open>backgroundColor\<close> and \<open>borderColor\<close> is as before, and a dataset that has both is
  left as it is. A dataset \<open>i\<close> that the loop reaches (no earlier dataset makes it
  raise) and that has no \<open>backgroundColor\<close> gets the palette entry \<open>i mod len\<close>
  under that key; when it has no \<open>borderColor\<close> and its background is a string, it
  gets under \<open>borderColor\<close> that string with \<open>0.7\<close> and \<open>0.8\<close> replaced by \<open>1\<close>.
\<close>

theorem datasets_after_plot:
  "\<exists>palette datasets'.
     get_color_palette color_palette = Inr palette \<and>
     datasets' = snd (plot_data_chart cfg chart_type labels datasets title theme color_palette
                        width_arg height_arg) \<and>
     length datasets' = length datasets \<and>
     (\<forall>i<length datasets.
        (\<forall>k v. map_of (datasets ! i) k = Some v \<longrightarrow> map_of (datasets' ! i) k = Some v) \<and>
        (\<forall>k v. map_of (datasets' ! i) k = Some v \<longrightarrow>
             map_of (datasets ! i) k = Some v \<or> k = lit ''backgroundColor'' \<or> k = lit ''borderColor'') \<and>
        (dict_contains (datasets ! i) (lit ''backgroundColor'') \<and>
         dict_contains (datasets ! i) (lit ''borderColor'') \<longrightarrow> datasets' ! i = datasets ! i) \<and>
        (list_all colorable (take i datasets) \<and>
         map_of (datasets ! i) (lit ''backgroundColor'') = None \<longrightarrow>
           map_of (datasets' ! i) (lit ''backgroundColor'')
             = Some (JStr (palette ! (i mod length palette)))) \<and>
        (list_all colorable (take i datasets) \<and> colorable (datasets ! i) \<and>
         map_of (datasets ! i) (lit ''borderColor'') = None \<longrightarrow>
           (\<exists>bg. map_of (datasets' ! i) (lit ''backgroundColor'') = Some (JStr bg) \<and>
                 map_of (datasets' ! i) (lit ''borderColor'')
                   = Some (JStr (str_replace (str_replace bg (lit ''0.7'') (lit ''1''))
                                   (lit ''0.8'') (lit ''1''))))))"
proof -
  obtain colors where colors: "get_color_palette color_palette = Inr colors"
    and state: "snd (plot_data_chart cfg chart_type labels datasets title theme color_palette
                  width_arg height_arg) = snd (assign_colors colors 0 datasets)"
    using plot_data_chart_datasets by blast
  have ne: "colors \<noteq> []" using palettes_nonempty [OF colors] by auto
  let ?ds' = "snd (assign_colors colors 0 datasets)"
  have len: "length ?ds' = length datasets" by (rule assign_colors_length)
  have frame: "(\<forall>k v. map_of (datasets ! i) k = Some v \<longrightarrow> map_of (?ds' ! i) k = Some v) \<and>
        (\<forall>k v. map_of (?ds' ! i) k = Some v \<longrightarrow>
             map_of (datasets ! i) k = Some v \<or> k = lit ''backgroundColor'' \<or> k = lit ''borderColor'') \<and>
        (dict_contains (datasets ! i) (lit ''backgroundColor'') \<and>
         dict_contains (datasets ! i) (lit ''borderColor'') \<longrightarrow> ?ds' ! i = datasets ! i)"
    if "i < length datasets" for i
  proof -
    from assign_colors_frame [OF that, of colors 0]
    consider "?ds' ! i = datasets ! i"
      | "?ds' ! i = snd (assign_dataset colors i (datasets ! i))" by auto
    then show ?thesis
    proof cases
      case 1
      then show ?thesis by simp
    next
      case 2
      show ?thesis
        unfolding 2
        using assign_dataset_keeps [of "datasets ! i" _ _ colors i]
          assign_dataset_adds [of colors i "datasets ! i"]
          assign_dataset_both [of "datasets ! i" colors i]
        by auto
    qed
  qed
  have fill: "map_of (?ds' ! i) (lit ''backgroundColor'')
             = Some (JStr (colors ! (i mod length colors)))"
    if "i < length datasets" "list_all colorable (take i datasets)"
      "map_of (datasets ! i) (lit ''backgroundColor'') = None" for i
    using assign_colors_reaches [OF that(1,2) ne, of 0]
      assign_dataset_background [OF ne that(3), of i]
    by simp
  have border: "\<exists>bg. map_of (?ds' ! i) (lit ''backgroundColor'') = Some (JStr bg) \<and>
                 map_of (?ds' ! i) (lit ''borderColor'')
                   = Some (JStr (str_replace (str_replace bg (lit ''0.7'') (lit ''1''))
                                   (lit ''0.8'') (lit ''1'')))"
    if "i < length datasets" "list_all colorable (take i datasets)" "colorable (datasets ! i)"
      "map_of (datasets ! i) (lit ''borderColor'') = None" for i
    using assign_colors_reaches [OF that(1,2) ne, of 0]
      assign_dataset_border [OF ne that(4,3), of i]
    by simp
  have per: "(\<forall>k v. map_of (datasets ! i) k = Some v \<longrightarrow> map_of (?ds' ! i) k = Some v) \<and>
        (\<forall>k v. map_of (?ds' ! i) k = Some v \<longrightarrow>
             map_of (datasets ! i) k = Some v \<or> k = lit ''backgroundColor'' \<or> k = lit ''borderColor'') \<and>
        (dict_contains (datasets ! i) (lit ''backgroundColor'') \<and>
         dict_contains (datasets ! i) (lit ''borderColor'') \<longrightarrow> ?ds' ! i = datasets ! i) \<and>
        (list_all colorable (take i datasets) \<and>
         map_of (datasets ! i) (lit ''backgroundColor'') = None \<longrightarrow>
           map_of (?ds' ! i) (lit ''backgroundColor'')
             = Some (JStr (colors ! (i mod length colors)))) \<and>
        (list_all colorable (take i datasets) \<and> colorable (datasets ! i) \<and>
         map_of (datasets ! i) (lit ''borderColor'') = None \<longrightarrow>
           (\<exists>bg. map_of (?ds' ! i) (lit ''backgroundColor'') = Some (JStr bg) \<and>
                 map_of (?ds' ! i) (lit ''borderColor'')
                   = Some (JStr (str_replace (str_replace bg (lit ''0.7'') (lit ''1''))
                                   (lit ''0.8'') (lit ''1'')))))"
    if i: "i < length datasets" for i
  proof (intro conjI)
    show "\<forall>k v. map_of (datasets ! i) k = Some v \<longrightarrow> map_of (?ds' ! i) k = Some v"
      using frame [OF i] by (rule conjunct1)
    show "\<forall>k v. map_of (?ds' ! i) k = Some v \<longrightarrow>
             map_of (datasets ! i) k = Some v \<or> k = lit ''backgroundColor'' \<or> k = lit ''borderColor''"
      using frame [OF i] by (elim conjE)
    show "dict_contains (datasets ! i) (lit ''backgroundColor'') \<and>
         dict_contains (datasets ! i) (lit ''borderColor'') \<longrightarrow> ?ds' ! i = datasets ! i"
      using frame [OF i] by (elim conjE)
    show "list_all colorable (take i datasets) \<and>
         map_of (datasets ! i) (lit ''backgroundColor'') = None \<longrightarrow>
           map_of (?ds' ! i) (lit ''backgroundColor'')
             = Some (JStr (colors ! (i mod length colors)))"
    proof
      assume "list_all colorable (take i datasets) \<and>
         map_of (datasets ! i) (lit ''backgroundColor'') = None"
      then show "map_of (?ds' ! i) (lit ''backgroundColor'')
             = Some (JStr (colors ! (i mod length colors)))"
        using fill [OF i] by (elim conjE)
    qed
    show "list_all colorable (take i datasets) \<and> colorable (datasets ! i) \<and>
         map_of (datasets ! i) (lit ''borderColor'') = None \<longrightarrow>
           (\<exists>bg. map_of (?ds' ! i) (lit ''backgroundColor'') = Some (JStr bg) \<and>
                 map_of (?ds' ! i) (lit ''borderColor'')
                   = Some (JStr (str_replace (str_replace bg (lit ''0.7'') (lit ''1''))
                                   (lit ''0.8'') (lit ''1''))))"
    proof
      assume "list_all colorable (take i datasets) \<and> colorable (datasets ! i) \<and>
         map_of (datasets ! i) (lit ''borderColor'') = None"
      then show "\<exists>bg. map_of (?ds' ! i) (lit ''backgroundColor'') = Some (JStr bg) \<and>
                 map_of (?ds' ! i) (lit ''borderColor'')
                   = Some (JStr (str_replace (str_replace bg (lit ''0.7'') (lit ''1''))
                                   (lit ''0.8'') (lit ''1'')))"
        using border [OF i] by (elim conjE)
    qed
  qed
  show ?thesis
    unfolding state
    by (intro exI [of _ colors] exI [of _ "?ds'"] conjI allI impI colors refl len per)
qed

lemma default_palette:
  "get_color_palette (lit ''default'') =
     Inr [lit ''rgba(54, 162, 235, 0.7)'', lit ''rgba(255, 99, 132, 0.7)'',
          lit ''rgba(75, 192, 192, 0.7)'', lit ''rgba(255, 206, 86, 0.7)'',
          lit ''rgba(153, 102, 255, 0.7)'', lit ''rgba(255, 159, 64, 0.7)'']"
  by (simp add: get_color_palette_def dict_index_def dict_get_def COLOR_PALETTES_def lit_def)

lemma default_colors_assigned_example:
  "map_of (snd (plot_data_chart default_Config (lit ''bar'') [lit ''x'']
                  [[(lit ''label'', JStr (lit ''A''))], [(lit ''label'', JStr (lit ''B''))]]
                  None (lit ''light'') (lit ''default'') None None) ! 1)
      (lit ''backgroundColor'') = Some (JStr (lit ''rgba(255, 99, 132, 0.7)'')) \<and>
   map_of (snd (plot_data_chart default_Config (lit ''bar'') [lit ''x'']
                  [[(lit ''label'', JStr (lit ''A''))], [(lit ''label'', JStr (lit ''B''))]]
                  None (lit ''light'') (lit ''default'') None None) ! 1)
      (lit ''borderColor'') = Some (JStr (lit ''rgba(255, 99, 132, 1)''))"
proof -
  let ?ds = "[[(lit ''label'', JStr (lit ''A''))], [(lit ''label'', JStr (lit ''B''))]]"
  have h: "1 < length ?ds" "list_all colorable (take 1 ?ds)"
    "\<not> dict_contains (?ds ! 1) (lit ''backgroundColor'')"
    "\<not> dict_contains (?ds ! 1) (lit ''borderColor'')"
    by (simp_all add: colorable_def dict_contains_def lit_def)
  have a: "with_alpha_one (lit ''rgba(255, 99, 132, 0.7)'') = lit ''rgba(255, 99, 132, 1)''"
    by (simp add: with_alpha_one_def lit_def)
  from default_colors_assigned [OF h, of "lit ''default''" default_Config "lit ''bar''"
      "[lit ''x'']" None "lit ''light''" None None]
  show ?thesis
    by (auto simp: default_palette a)
qed

theorem datasets_unchanged_counterexample:
  "snd (plot_data_chart default_Config (lit ''bar'') [lit ''x'']
          [[(lit ''label'', JStr (lit ''A''))]] None (lit ''light'') (lit ''default'') None None)
     = [[(lit ''label'', JStr (lit ''A'')),
         (lit ''backgroundColor'', JStr (lit ''rgba(54, 162, 235, 0.7)'')),
         (lit ''borderColor'', JStr (lit ''rgba(54, 162, 235, 1)''))]] \<and>
   snd (plot_data_chart default_Config (lit ''bar'') [lit ''x'']
          [[(lit ''label'', JStr (lit ''A''))]] None (lit ''light'') (lit ''default'') None None)
     \<noteq> [[(lit ''label'', JStr (lit ''A''))]]"
proof -
  obtain colors where c: "get_color_palette (lit ''default'') = Inr colors"
    and s: "snd (plot_data_chart default_Config (lit ''bar'') [lit ''x'']
          [[(lit ''label'', JStr (lit ''A''))]] None (lit ''light'') (lit ''default'') None None)
       = snd (assign_colors colors 0 [[(lit ''label'', JStr (lit ''A''))]])"
    using plot_data_chart_datasets by blast
  from c have colors: "colors = [lit ''rgba(54, 162, 235, 0.7)'', lit ''rgba(255, 99, 132, 0.7)'',
          lit ''rgba(75, 192, 192, 0.7)'', lit ''rgba(255, 206, 86, 0.7)'',
          lit ''rgba(153, 102, 255, 0.7)'', lit ''rgba(255, 159, 64, 0.7)'']"
    by (simp add: default_palette)
  show ?thesis
    unfolding s colors
    by (simp add: assign_dataset_def dict_contains_def dict_set_def str_replace_def lit_def)
qed

theorem datasets_after_plot_witness:
  "length (snd (plot_data_chart default_Config (lit ''bar'') [lit ''x'']
          [[(lit ''label'', JStr (lit ''A''))]] None (lit ''light'') (lit ''default'') None None)) = 1 \<and>
   map_of (snd (plot_data_chart default_Config (lit ''bar'') [lit ''x'']
          [[(lit ''label'', JStr (lit ''A''))]] None (lit ''light'') (lit ''default'') None None) ! 0)
     (lit ''label'') = Some (JStr (lit ''A'')) \<and>
   map_of (snd (plot_data_chart default_Config (lit ''bar'') [lit ''x'']
          [[(lit ''label'', JStr (lit ''A''))]] None (lit ''light'') (lit ''default'') None None) ! 0)
     (lit ''backgroundColor'') = Some (JStr (lit ''rgba(54, 162, 235, 0.7)'')) \<and>
   map_of (snd (plot_data_chart default_Config (lit ''bar'') [lit ''x'']
          [[(lit ''label'', JStr (lit ''A''))]] None (lit ''light'') (lit ''default'') None None) ! 0)
     (lit ''borderColor'') = Some (JStr (lit ''rgba(54, 162, 235, 1)''))"
proof -
  let ?ds = "[[(lit ''label'', JStr (lit ''A''))]]"
  let ?out = "snd (plot_data_chart default_Config (lit ''bar'') [lit ''x''] ?ds None
                     (lit ''light'') (lit ''default'') None None)"
  from datasets_after_plot [where color_palette = "lit ''default''" and cfg = default_Config
      and chart_type = "lit ''bar''" and labels = "[lit ''x'']" and datasets = ?ds
      and title = None and theme = "lit ''light''" and width_arg = None and height_arg = None]
  obtain palette datasets' where p: "get_color_palette (lit ''default'') = Inr palette"
    and d: "datasets' = ?out"
    and len: "length datasets' = length ?ds"
    and keep: "\<forall>k v. map_of (?ds ! 0) k = Some v \<longrightarrow> map_of (datasets' ! 0) k = Some v"
    and fill: "list_all colorable (take 0 ?ds) \<and>
         map_of (?ds ! 0) (lit ''backgroundColor'') = None \<longrightarrow>
           map_of (datasets' ! 0) (lit ''backgroundColor'')
             = Some (JStr (palette ! (0 mod length palette)))"
    and border: "list_all colorable (take 0 ?ds) \<and> colorable (?ds ! 0) \<and>
         map_of (?ds ! 0) (lit ''borderColor'') = None \<longrightarrow>
           (\<exists>bg. map_of (datasets' ! 0) (lit ''backgroundColor'') = Some (JStr bg) \<and>
                 map_of (datasets' ! 0) (lit ''borderColor'')
                   = Some (JStr (str_replace (str_replace bg (lit ''0.7'') (lit ''1''))
                                   (lit ''0.8'') (lit ''1''))))"
    by fastforce
  have palette: "palette ! (0 mod length palette) = lit ''rgba(54, 162, 235, 0.7)''"
    using p by (auto simp: default_palette)
  have no_bg: "map_of (?ds ! 0) (lit ''backgroundColor'') = None"
    and no_border: "map_of (?ds ! 0) (lit ''borderColor'') = None"
    and has_label: "map_of (?ds ! 0) (lit ''label'') = Some (JStr (lit ''A''))"
    by (simp_all add: lit_def)
  have col: "colorable (?ds ! 0)"
    using no_bg by (simp add: colorable_def)
  have r: "str_replace (str_replace (lit ''rgba(54, 162, 235, 0.7)'') (lit ''0.7'') (lit ''1''))
             (lit ''0.8'') (lit ''1'') = lit ''rgba(54, 162, 235, 1)''"
    by (simp add: str_replace_def lit_def)
  have a: "length ?out = 1" using len d by simp
  have b: "map_of (?out ! 0) (lit ''label'') = Some (JStr (lit ''A''))"
    using keep has_label d by blast
  have c: "map_of (?out ! 0) (lit ''backgroundColor'') = Some (JStr (lit ''rgba(54, 162, 235, 0.7)''))"
    using fill no_bg palette d by simp
  from border col no_border
  obtain bg where "map_of (?out ! 0) (lit ''backgroundColor'') = Some (JStr bg)"
    and "map_of (?out ! 0) (lit ''borderColor'')
           = Some (JStr (str_replace (str_replace bg (lit ''0.7'') (lit ''1''))
                           (lit ''0.8'') (lit ''1'')))"
    unfolding d by auto
  with c r have e: "map_of (?out ! 0) (lit ''borderColor'') = Some (JStr (lit ''rgba(54, 162, 235, 1)''))"
    by simp
  from a b c e show ?thesis by (intro conjI)
qed

text \<open>
  C4 at a request on which the code departs from it: a dataset whose
  \<open>backgroundColor\<close> is a list (one colour per slice) and that has no \<open>borderColor\<close>,
  followed by a dataset without colours. \<open>.replace\<close> raises \<open>AttributeError\<close> on the
  first, the call returns no result, and the second dataset is left without
  \<open>backgroundColor\<close> and \<open>borderColor\<close>.
\<close>

theorem colors_not_assigned_after_raise:
  "plot_data_chart default_Config (lit ''pie'') [lit ''a'', lit ''b'']
       [[(lit ''backgroundColor'', JList [JStr (lit ''red''), JStr (lit ''blue'')]),
         (lit ''data'', JList [JInt 1, JInt 2])],
        [(lit ''label'', JStr (lit ''B'')), (lit ''data'', JList [JInt 3])]]
       None (lit ''light'') (lit ''default'') None None =
     (Inl AttributeError,
      [[(lit ''backgroundColor'', JList [JStr (lit ''red''), JStr (lit ''blue'')]),
        (lit ''data'', JList [JInt 1, JInt 2])],
       [(lit ''label'', JStr (lit ''B'')), (lit ''data'', JList [JInt 3])]]) \<and>
   map_of (snd (plot_data_chart default_Config (lit ''pie'') [lit ''a'', lit ''b'']
       [[(lit ''backgroundColor'', JList [JStr (lit ''red''), JStr (lit ''blue'')]),
         (lit ''data'', JList [JInt 1, JInt 2])],
        [(lit ''label'', JStr (lit ''B'')), (lit ''data'', JList [JInt 3])]]
       None (lit ''light'') (lit ''default'') None None) ! 1) (lit ''backgroundColor'') = None \<and>
   map_of (snd (plot_data_chart default_Config (lit ''pie'') [lit ''a'', lit ''b'']
       [[(lit ''backgroundColor'', JList [JStr (lit ''red''), JStr (lit ''blue'')]),
         (lit ''data'', JList [JInt 1, JInt 2])],
        [(lit ''label'', JStr (lit ''B'')), (lit ''data'', JList [JInt 3])]]
       None (lit ''light'') (lit ''default'') None None) ! 1) (lit ''borderColor'') = None"
proof -
  have run: "plot_data_chart default_Config (lit ''pie'') [lit ''a'', lit ''b'']
       [[(lit ''backgroundColor'', JList [JStr (lit ''red''), JStr (lit ''blue'')]),
         (lit ''data'', JList [JInt 1, JInt 2])],
        [(lit ''label'', JStr (lit ''B'')), (lit ''data'', JList [JInt 3])]]
       None (lit ''light'') (lit ''default'') None None =
     (Inl AttributeError,
      [[(lit ''backgroundColor'', JList [JStr (lit ''red''), JStr (lit ''blue'')]),
        (lit ''data'', JList [JInt 1, JInt 2])],
       [(lit ''label'', JStr (lit ''B'')), (lit ''data'', JList [JInt 3])]])"
    by (simp add: plot_data_chart_def assign_dataset_def eval_defs)
  show ?thesis
    unfolding run by (simp add: lit_def)
qed

section \<open>Dimensions and the length ceiling, on an example\<close>

text \<open>
  C2. The dimensions used when the caller omits \<open>width\<close> and \<open>height\<close> are the
  constants 500 and 300 of the signature, whatever \<open>DEFAULT_CHART_WIDTH\<close> and
  \<open>DEFAULT_CHART_HEIGHT\<close> are configured to: with 800 and 600 configured, the URL
  carries \<open>w=500&h=300\<close> and the result echoes 500 and 300.
\<close>

theorem omitted_dimensions_ignore_config:
  "plot_data_chart cfg chart_type labels datasets title theme color_palette None None =
     plot_data_chart cfg chart_type labels datasets title theme color_palette (Some 500) (Some 300) \<and>
   plot_data_chart (default_Config\<lparr>DEFAULT_CHART_WIDTH := 800, DEFAULT_CHART_HEIGHT := 600\<rparr>)
       (lit ''pie'') [] [] None (lit ''light'') (lit ''default'') None None =
     (Inr [(lit ''success'', JBool True),
           (lit ''type'', JStr (lit ''chart'')),
           (lit ''chart_type'', JStr (lit ''pie'')),
           (lit ''title'', JNull),
           (lit ''image_url'', JStr (lit ''https://quickchart.io/chart?c=%7B%22type%22%3A+%22pie%22%2C+%22data%22%3A+%7B%22labels%22%3A+%5B%5D%2C+%22datasets%22%3A+%5B%5D%7D%2C+%22options%22%3A+%7B%22responsive%22%3A+false%2C+%22plugins%22%3A+%7B%22legend%22%3A+%7B%22labels%22%3A+%7B%22color%22%3A+%22%23333333%22%7D%7D%7D%2C+%22scales%22%3A+%7B%7D%7D%7D&w=500&h=300&bkg=%23ffffff'')),
           (lit ''theme'', JStr (lit ''light'')),
           (lit ''dimensions'', JObj [(lit ''width'', JInt 500), (lit ''height'', JInt 300)])],
      [])"
proof
  show "plot_data_chart cfg chart_type labels datasets title theme color_palette None None =
     plot_data_chart cfg chart_type labels datasets title theme color_palette (Some 500) (Some 300)"
    by (simp add: plot_data_chart_def)
next
  show "plot_data_chart (default_Config\<lparr>DEFAULT_CHART_WIDTH := 800, DEFAULT_CHART_HEIGHT := 600\<rparr>)
       (lit ''pie'') [] [] None (lit ''light'') (lit ''default'') None None =
     (Inr [(lit ''success'', JBool True),
           (lit ''type'', JStr (lit ''chart'')),
           (lit ''chart_type'', JStr (lit ''pie'')),
           (lit ''title'', JNull),
           (lit ''image_url'', JStr (lit ''https://quickchart.io/chart?c=%7B%22type%22%3A+%22pie%22%2C+%22data%22%3A+%7B%22labels%22%3A+%5B%5D%2C+%22datasets%22%3A+%5B%5D%7D%2C+%22options%22%3A+%7B%22responsive%22%3A+false%2C+%22plugins%22%3A+%7B%22legend%22%3A+%7B%22labels%22%3A+%7B%22color%22%3A+%22%23333333%22%7D%7D%7D%2C+%22scales%22%3A+%7B%7D%7D%7D&w=500&h=300&bkg=%23ffffff'')),
           (lit ''theme'', JStr (lit ''light'')),
           (lit ''dimensions'', JObj [(lit ''width'', JInt 500), (lit ''height'', JInt 300)])],
      [])"
    unfolding empty_pie_chart
    by (simp add: default_Config_def lit_def)
qed

lemma utf8_encode_append:
  "utf8_encode (xs @ ys) =
     (case utf8_encode xs of
        Inl e \<Rightarrow> Inl e
      | Inr a \<Rightarrow> (case utf8_encode ys of Inl e \<Rightarrow> Inl e | Inr b \<Rightarrow> Inr (a @ b)))"
  by (induction xs) (simp_all split: sum.splits)

lemma utf8_encode_replicate_a: "utf8_encode (replicate n 97) = Inr (replicate n 97)"
  by (induction n) (simp_all add: utf8_encode_cp_def)

lemma long_title_encoded:
  "quote_plus (json_dumps (chart_config
         \<lparr>background = lit ''#ffffff'', font = lit ''#333333'', grid = lit ''rgba(0, 0, 0, 0.1)''\<rparr>
         (lit ''pie'') [] [] (Some (replicate (Suc n) 97)))) =
     Inr (lit ''%7B%22type%22%3A+%22pie%22%2C+%22data%22%3A+%7B%22labels%22%3A+%5B%5D%2C+%22datasets%22%3A+%5B%5D%7D%2C+%22options%22%3A+%7B%22responsive%22%3A+false%2C+%22plugins%22%3A+%7B%22legend%22%3A+%7B%22labels%22%3A+%7B%22color%22%3A+%22%23333333%22%7D%7D%2C+%22title%22%3A+%7B%22display%22%3A+true%2C+%22text%22%3A+%22''
          @ replicate (Suc n) 97
          @ lit ''%22%2C+%22color%22%3A+%22%23333333%22%2C+%22font%22%3A+%7B%22size%22%3A+16%7D%7D%7D%2C+%22scales%22%3A+%7B%7D%7D%7D'')"
  by (simp add: eval_defs utf8_encode_append utf8_encode_replicate_a str_of_nat.simps)

lemma long_title_pie_chart:
  "plot_data_chart cfg (lit ''pie'') [] [] (Some (replicate (Suc n) 97)) (lit ''light'')
       (lit ''default'') None None =
     (if QUICKCHART_MAX_URL_LENGTH cfg < int (length (QUICKCHART_URL cfg)) + 456 + int n
      then Inr [(lit ''success'', JBool False),
                (lit ''error'', JStr (lit ''Chart data too large. Reduce data points.''))]
      else Inr [(lit ''success'', JBool True),
                (lit ''type'', JStr (lit ''chart'')),
                (lit ''chart_type'', JStr (lit ''pie'')),
                (lit ''title'', JStr (replicate (Suc n) 97)),
                (lit ''image_url'', JStr (QUICKCHART_URL cfg @ lit ''?c=%7B%22type%22%3A+%22pie%22%2C+%22data%22%3A+%7B%22labels%22%3A+%5B%5D%2C+%22datasets%22%3A+%5B%5D%7D%2C+%22options%22%3A+%7B%22responsive%22%3A+false%2C+%22plugins%22%3A+%7B%22legend%22%3A+%7B%22labels%22%3A+%7B%22color%22%3A+%22%23333333%22%7D%7D%2C+%22title%22%3A+%7B%22display%22%3A+true%2C+%22text%22%3A+%22''
                   @ replicate (Suc n) 97
                   @ lit ''%22%2C+%22color%22%3A+%22%23333333%22%2C+%22font%22%3A+%7B%22size%22%3A+16%7D%7D%7D%2C+%22scales%22%3A+%7B%7D%7D%7D&w=500&h=300&bkg=%23ffffff'')),
                (lit ''theme'', JStr (lit ''light'')),
                (lit ''dimensions'', JObj [(lit ''width'', JInt 500), (lit ''height'', JInt 300)])],
      [])"
  by (simp add: plot_data_chart_def eval_defs utf8_encode_append utf8_encode_replicate_a
        str_of_nat_500 str_of_nat_300 str_of_nat.simps Let_def)

text \<open>
  The length of the encoded configuration alone does not decide the result (C1): in
  the default configuration, a pie chart with no data and a title of 7550 letters
  \<open>a\<close> has a URL-encoded configuration of 7976 characters, below the ceiling of 8000,
  yet the call answers with the failure record, because the whole URL has 8032.
\<close>

theorem config_length_counterexample:
  "\<exists>encoded.
     quote_plus (json_dumps (chart_config
         \<lparr>background = lit ''#ffffff'', font = lit ''#333333'', grid = lit ''rgba(0, 0, 0, 0.1)''\<rparr>
         (lit ''pie'') [] [] (Some (replicate 7550 97)))) = Inr encoded \<and>
     length encoded = 7976 \<and>
     get_chart_theme (lit ''light'') =
       Inr \<lparr>background = lit ''#ffffff'', font = lit ''#333333'', grid = lit ''rgba(0, 0, 0, 0.1)''\<rparr> \<and>
     QUICKCHART_MAX_URL_LENGTH default_Config = 8000 \<and>
     plot_data_chart default_Config (lit ''pie'') [] [] (Some (replicate 7550 97)) (lit ''light'')
         (lit ''default'') None None =
       (Inr [(lit ''success'', JBool False),
             (lit ''error'', JStr (lit ''Chart data too large. Reduce data points.''))],
        [])"
proof -
  have n: "(7550::nat) = Suc 7549" by simp
  have "plot_data_chart default_Config (lit ''pie'') [] [] (Some (replicate 7550 97)) (lit ''light'')
         (lit ''default'') None None =
       (Inr [(lit ''success'', JBool False),
             (lit ''error'', JStr (lit ''Chart data too large. Reduce data points.''))],
        [])"
    unfolding n long_title_pie_chart by (simp add: default_Config_def lit_def)
  moreover have "\<exists>encoded. quote_plus (json_dumps (chart_config
         \<lparr>background = lit ''#ffffff'', font = lit ''#333333'', grid = lit ''rgba(0, 0, 0, 0.1)''\<rparr>
         (lit ''pie'') [] [] (Some (replicate 7550 97)))) = Inr encoded \<and> length encoded = 7976"
    unfolding n long_title_encoded by (simp add: lit_def)
  moreover have "get_chart_theme (lit ''light'') =
       Inr \<lparr>background = lit ''#ffffff'', font = lit ''#333333'', grid = lit ''rgba(0, 0, 0, 0.1)''\<rparr>"
    by (simp add: get_chart_theme_def dict_index_def dict_get_def CHART_THEMES_def lit_def)
  moreover have "QUICKCHART_MAX_URL_LENGTH default_Config = 8000"
    by (simp add: default_Config_def)
  ultimately show ?thesis by blast
qed

section \<open>Building the chart URL raises nothing\<close>

lemma valid_text_concat: "list_all valid_text xs \<Longrightarrow> valid_text (concat xs)"
  by (induction xs) simp_all

lemma hex_digit_ascii: "d < 16 \<Longrightarrow> hex_digit d < 128"
  by (simp add: hex_digit_def)

lemma decimal_digit_scalar: "m < 10 \<Longrightarrow> scalar_value (48 + m)"
  by (simp add: scalar_value_def)

lemma valid_text_hex4: "valid_text (hex4 n)"
proof -
  have "scalar_value (hex_digit (d mod 16))" for d
    by (rule scalar_value_ascii, rule hex_digit_ascii) simp
  then show ?thesis by (simp add: hex4_def)
qed

lemma valid_text_json_escape_char: "valid_text (json_escape_char c)"
  by (simp add: json_escape_char_def valid_text_hex4 scalar_value_def)

lemma valid_text_json_string: "valid_text (json_string s)"
  by (simp add: json_string_def valid_text_concat list_all_iff valid_text_json_escape_char
        scalar_value_def)

lemma valid_text_str_of_nat: "valid_text (str_of_nat n)"
proof (induction n rule: str_of_nat.induct)
  case (1 n)
  show ?case
  proof (cases "n < 10")
    case True
    then show ?thesis by (simp add: str_of_nat.simps [of n] decimal_digit_scalar)
  next
    case False
    have "scalar_value (48 + n mod 10)"
      by (rule decimal_digit_scalar) simp
    with False 1 show ?thesis by (simp add: str_of_nat.simps [of n])
  qed
qed

lemma valid_text_str_of_int: "valid_text (str_of_int i)"
  by (simp add: str_of_int_def valid_text_str_of_nat scalar_value_def)

lemma valid_text_json_dumps: "valid_text (json_dumps v)"
proof (induction v rule: json_dumps.induct)
  case (6 xs)
  then have "list_all valid_text (map json_dumps xs)" by (simp add: list_all_iff)
  then show ?case by (simp add: valid_text_lit valid_text_join)
next
  case (7 kvs)
  then have "list_all valid_text (map (\<lambda>(k, v). json_string k @ lit '': '' @ json_dumps v) kvs)"
    by (auto simp: list_all_iff valid_text_json_string valid_text_lit)
  then show ?case by (simp add: valid_text_lit valid_text_join)
qed (simp_all add: valid_text_lit valid_text_str_of_int valid_text_json_string json_float_def)

lemma quote_plus_valid: "valid_text s \<Longrightarrow> \<exists>q. quote_plus s = Inr q"
  using utf8_encode_valid [of s] by (auto simp: quote_plus_def)

lemma chart_theme_background:
  "get_chart_theme theme = Inr tc \<Longrightarrow> valid_text (background tc)"
  by (auto simp: get_chart_theme_def dict_index_def dict_get_def CHART_THEMES_def valid_text_lit
      split: if_splits)

lemma chart_theme_returns: "\<exists>tc. get_chart_theme theme = Inr tc"
  using get_chart_theme_eq by blast

lemma urlencode_chart_params:
  assumes "valid_text bkg"
  shows "\<exists>query. urlencode [(lit ''c'', PStr (json_dumps v)), (lit ''w'', PInt w),
                            (lit ''h'', PInt h), (lit ''bkg'', PStr bkg)] = Inr query"
proof -
  obtain c where c: "quote_plus (json_dumps v) = Inr c"
    using quote_plus_valid [OF valid_text_json_dumps] by blast
  obtain w' where w: "quote_plus (str_of_int w) = Inr w'"
    using quote_plus_valid [OF valid_text_str_of_int] by blast
  obtain h' where h: "quote_plus (str_of_int h) = Inr h'"
    using quote_plus_valid [OF valid_text_str_of_int] by blast
  obtain b where b: "quote_plus bkg = Inr b"
    using quote_plus_valid [OF assms] by blast
  obtain k1 k2 k3 k4 where k: "quote_plus (lit ''c'') = Inr k1" "quote_plus (lit ''w'') = Inr k2"
    "quote_plus (lit ''h'') = Inr k3" "quote_plus (lit ''bkg'') = Inr k4"
    using quote_plus_valid [OF valid_text_lit] by meson
  show ?thesis
    by (simp add: urlencode_def str_of_param_def c w h b k)
qed

section \<open>The length ceiling\<close>

lemma chart_result_keys:
  "map_of [(lit ''success'', a), (lit ''error'', b)] (lit ''success'') = Some a"
  "map_of [(lit ''success'', a), (lit ''error'', b)] (lit ''image_url'') = None"
  "map_of [(lit ''success'', a), (lit ''type'', c), (lit ''chart_type'', d), (lit ''title'', e),
           (lit ''image_url'', f), (lit ''theme'', g), (lit ''dimensions'', h)]
     (lit ''success'') = Some a"
  "map_of [(lit ''success'', a), (lit ''type'', c), (lit ''chart_type'', d), (lit ''title'', e),
           (lit ''image_url'', f), (lit ''theme'', g), (lit ''dimensions'', h)]
     (lit ''image_url'') = Some f"
  by (simp_all add: lit_def)

text \<open>
  C1, as the code has it. For every chart request on which the colour loop raises
  nothing, the call returns a result, and what decides it is the length of the whole
  URL (the endpoint, \<open>?\<close>, and the encoded parameters \<open>c\<close>, \<open>w\<close>, \<open>h\<close>, \<open>bkg\<close>):
  when it exceeds the configured ceiling, \<open>success\<close> is false and there is no
  \<open>image_url\<close>; otherwise \<open>success\<close> is true and \<open>image_url\<close> is that URL.
\<close>

theorem plot_data_chart_url_ceiling:
  assumes "list_all colorable datasets"
  shows "\<exists>tc datasets' query url res.
     get_chart_theme theme = Inr tc \<and>
     urlencode [(lit ''c'', PStr (json_dumps (chart_config tc chart_type labels datasets' title))),
                (lit ''w'', PInt (case width_arg of None \<Rightarrow> 500 | Some w \<Rightarrow> w)),
                (lit ''h'', PInt (case height_arg of None \<Rightarrow> 300 | Some h \<Rightarrow> h)),
                (lit ''bkg'', PStr (background tc))] = Inr query \<and>
     url = QUICKCHART_URL cfg @ lit ''?'' @ query \<and>
     plot_data_chart cfg chart_type labels datasets title theme color_palette width_arg height_arg
       = (Inr res, datasets') \<and>
     map_of res (lit ''success'')
       = Some (JBool (int (length url) \<le> QUICKCHART_MAX_URL_LENGTH cfg)) \<and>
     map_of res (lit ''image_url'')
       = (if int (length url) \<le> QUICKCHART_MAX_URL_LENGTH cfg then Some (JStr url) else None)"
proof -
  obtain tc where tc: "get_chart_theme theme = Inr tc"
    using chart_theme_returns by blast
  obtain colors where colors: "get_color_palette color_palette = Inr colors"
    using get_color_palette_eq by blast
  have ne: "colors \<noteq> []" using palettes_nonempty [OF colors] by auto
  obtain datasets' where loop: "assign_colors colors 0 datasets = (None, datasets')"
    using assign_colors_completes [OF assms ne, of 0]
    by (cases "assign_colors colors 0 datasets") auto
  let ?w = "case width_arg of None \<Rightarrow> 500 | Some w \<Rightarrow> w"
  let ?h = "case height_arg of None \<Rightarrow> 300 | Some h \<Rightarrow> h"
  obtain query where query:
    "urlencode [(lit ''c'', PStr (json_dumps (chart_config tc chart_type labels datasets' title))),
                (lit ''w'', PInt ?w), (lit ''h'', PInt ?h),
                (lit ''bkg'', PStr (background tc))] = Inr query"
    using urlencode_chart_params [OF chart_theme_background [OF tc]] by blast
  define url where "url = QUICKCHART_URL cfg @ lit ''?'' @ query"
  define res where "res =
     (if int (length url) > QUICKCHART_MAX_URL_LENGTH cfg then
        [(lit ''success'', JBool False),
         (lit ''error'', JStr (lit ''Chart data too large. Reduce data points.''))]
      else
        [(lit ''success'', JBool True),
         (lit ''type'', JStr (lit ''chart'')),
         (lit ''chart_type'', JStr chart_type),
         (lit ''title'', json_of_opt title),
         (lit ''image_url'', JStr url),
         (lit ''theme'', JStr theme),
         (lit ''dimensions'', JObj [(lit ''width'', JInt ?w), (lit ''height'', JInt ?h)])])"
  have run: "plot_data_chart cfg chart_type labels datasets title theme color_palette
               width_arg height_arg = (Inr res, datasets')"
    unfolding res_def url_def
    by (simp add: plot_data_chart_def tc colors loop query Let_def)
  have s: "map_of res (lit ''success'')
             = Some (JBool (int (length url) \<le> QUICKCHART_MAX_URL_LENGTH cfg))"
    and u: "map_of res (lit ''image_url'')
       = (if int (length url) \<le> QUICKCHART_MAX_URL_LENGTH cfg then Some (JStr url) else None)"
  proof -
    show "map_of res (lit ''success'')
             = Some (JBool (int (length url) \<le> QUICKCHART_MAX_URL_LENGTH cfg))"
    proof (cases "int (length url) \<le> QUICKCHART_MAX_URL_LENGTH cfg")
      case True
      then have "\<not> int (length url) > QUICKCHART_MAX_URL_LENGTH cfg" by simp
      then show ?thesis
        unfolding res_def using True by (simp only: if_False chart_result_keys)
    next
      case False
      then have "int (length url) > QUICKCHART_MAX_URL_LENGTH cfg" by simp
      then show ?thesis
        unfolding res_def using False by (simp only: if_True chart_result_keys)
    qed
    show "map_of res (lit ''image_url'')
       = (if int (length url) \<le> QUICKCHART_MAX_URL_LENGTH cfg then Some (JStr url) else None)"
    proof (cases "int (length url) \<le> QUICKCHART_MAX_URL_LENGTH cfg")
      case True
      then have "\<not> int (length url) > QUICKCHART_MAX_URL_LENGTH cfg" by simp
      then show ?thesis
        unfolding res_def using True by (simp only: if_False if_True chart_result_keys)
    next
      case False
      then have "int (length url) > QUICKCHART_MAX_URL_LENGTH cfg" by simp
      then show ?thesis
        unfolding res_def using False by (simp only: if_True if_False chart_result_keys)
    qed
  qed
  from tc query url_def run s u show ?thesis by blast
qed

theorem plot_data_chart_url_ceiling_witness:
  "\<exists>res. plot_data_chart default_Config (lit ''pie'') [] [] None (lit ''light'') (lit ''default'')
            None None = (Inr res, []) \<and>
     map_of res (lit ''success'') = Some (JBool True) \<and>
     map_of res (lit ''image_url'') = Some (JStr (lit ''https://quickchart.io/chart?c=%7B%22type%22%3A+%22pie%22%2C+%22data%22%3A+%7B%22labels%22%3A+%5B%5D%2C+%22datasets%22%3A+%5B%5D%7D%2C+%22options%22%3A+%7B%22responsive%22%3A+false%2C+%22plugins%22%3A+%7B%22legend%22%3A+%7B%22labels%22%3A+%7B%22color%22%3A+%22%23333333%22%7D%7D%7D%2C+%22scales%22%3A+%7B%7D%7D%7D&w=500&h=300&bkg=%23ffffff''))"
proof -
  have c: "list_all colorable []" by simp
  let ?res = "[(lit ''success'', JBool True),
           (lit ''type'', JStr (lit ''chart'')),
           (lit ''chart_type'', JStr (lit ''pie'')),
           (lit ''title'', JNull),
           (lit ''image_url'', JStr (lit ''https://quickchart.io/chart?c=%7B%22type%22%3A+%22pie%22%2C+%22data%22%3A+%7B%22labels%22%3A+%5B%5D%2C+%22datasets%22%3A+%5B%5D%7D%2C+%22options%22%3A+%7B%22responsive%22%3A+false%2C+%22plugins%22%3A+%7B%22legend%22%3A+%7B%22labels%22%3A+%7B%22color%22%3A+%22%23333333%22%7D%7D%7D%2C+%22scales%22%3A+%7B%7D%7D%7D&w=500&h=300&bkg=%23ffffff'')),
           (lit ''theme'', JStr (lit ''light'')),
           (lit ''dimensions'', JObj [(lit ''width'', JInt 500), (lit ''height'', JInt 300)])]"
  have e: "plot_data_chart default_Config (lit ''pie'') [] [] None (lit ''light'') (lit ''default'')
            None None = (Inr ?res, [])"
    unfolding empty_pie_chart by (simp add: default_Config_def lit_def)
  from plot_data_chart_url_ceiling [OF c, where cfg = default_Config and chart_type = "lit ''pie''"
      and labels = "[]" and title = None and theme = "lit ''light''"
      and color_palette = "lit ''default''" and width_arg = None and height_arg = None]
  obtain res datasets' where r: "plot_data_chart default_Config (lit ''pie'') [] [] None
       (lit ''light'') (lit ''default'') None None = (Inr res, datasets')"
    by blast
  from r e have res: "res = ?res" by simp
  have "map_of res (lit ''success'') = Some (JBool True)"
    unfolding res by (rule chart_result_keys)
  moreover have "map_of res (lit ''image_url'') = Some (JStr (lit ''https://quickchart.io/chart?c=%7B%22type%22%3A+%22pie%22%2C+%22data%22%3A+%7B%22labels%22%3A+%5B%5D%2C+%22datasets%22%3A+%5B%5D%7D%2C+%22options%22%3A+%7B%22responsive%22%3A+false%2C+%22plugins%22%3A+%7B%22legend%22%3A+%7B%22labels%22%3A+%7B%22color%22%3A+%22%23333333%22%7D%7D%7D%2C+%22scales%22%3A+%7B%7D%7D%7D&w=500&h=300&bkg=%23ffffff''))"
    unfolding res by (rule chart_result_keys)
  moreover have "plot_data_chart default_Config (lit ''pie'') [] [] None (lit ''light'')
       (lit ''default'') None None = (Inr res, [])"
    unfolding res by (rule e)
  ultimately show ?thesis by blast
qed

end
